theory Spec2Isabelle
  imports Complex_Main
begin

section \<open>Python values used by \<open>pymind/training.py\<close>\<close>

text \<open>
  Exceptions are values. Every exception carries its message, so that "the same error"
  can be told apart from another error of the same class.
\<close>

datatype error =
    ValueError string
  | IndexError string
  | ZeroDivisionError string
  | TypeError string

fun is_ValueError :: "error \<Rightarrow> bool" where
  "is_ValueError (ValueError _) = True"
| "is_ValueError _ = False"

definition ebind :: "error + 'a \<Rightarrow> ('a \<Rightarrow> error + 'b) \<Rightarrow> error + 'b" where
  "ebind m f = (case m of Inl e \<Rightarrow> Inl e | Inr v \<Rightarrow> f v)"

text \<open>
  A Python float as far as \<open>train\<close> looks at it: the cost values are only compared
  with \<open><\<close>, and the comparison starts from \<open>float('infinity')\<close>, so the two
  infinities and NaN are values of the type. A comparison with NaN is false.
\<close>

datatype pyfloat = NaN | NInf | Fin real | PInf

fun float_lt :: "pyfloat \<Rightarrow> pyfloat \<Rightarrow> bool" where
  "float_lt NaN _ = False"
| "float_lt _ NaN = False"
| "float_lt _ NInf = False"
| "float_lt NInf _ = True"
| "float_lt PInf _ = False"
| "float_lt (Fin a) (Fin b) = (a < b)"
| "float_lt (Fin a) PInf = True"

fun float_le :: "pyfloat \<Rightarrow> pyfloat \<Rightarrow> bool" where
  "float_le NaN _ = False"
| "float_le _ NaN = False"
| "float_le NInf _ = True"
| "float_le _ PInf = True"
| "float_le PInf _ = False"
| "float_le (Fin a) (Fin b) = (a \<le> b)"
| "float_le (Fin a) NInf = False"

text \<open>
  Python list indexing \<open>xs[i]\<close> with a non-negative index, \<open>xs[-1]\<close>, and the
  index range of \<open>xrange(n - 2, 0, -1)\<close>.
\<close>

definition py_index :: "'a list \<Rightarrow> nat \<Rightarrow> error + 'a" where
  "py_index xs i =
     (if i < length xs then Inr (xs ! i) else Inl (IndexError ''list index out of range''))"

definition py_last :: "'a list \<Rightarrow> error + 'a" where
  "py_last xs =
     (if xs = [] then Inl (IndexError ''list index out of range'') else Inr (last xs))"

definition xrange_down :: "nat \<Rightarrow> nat list" where
  "xrange_down n = rev [1 ..< n - 1]"

section \<open>numpy matrices\<close>

text \<open>
  A \<open>numpy.matrix\<close> is always two-dimensional: a shape and the entries, row by row.
  The entries are idealised as reals (rounding is not modelled). Every operation builds its
  result with \<open>mk_matrix\<close>, so the rows always agree with the shape.
\<close>

datatype matrix = Matrix (nrows: nat) (ncols: nat) (elems: "real list list")

definition mk_matrix :: "nat \<Rightarrow> nat \<Rightarrow> (nat \<Rightarrow> nat \<Rightarrow> real) \<Rightarrow> matrix" where
  "mk_matrix r c f = Matrix r c (map (\<lambda>i. map (f i) [0 ..< c]) [0 ..< r])"

definition entry :: "matrix \<Rightarrow> nat \<Rightarrow> nat \<Rightarrow> real" where
  "entry M i j = elems M ! i ! j"

definition shape :: "matrix \<Rightarrow> nat \<times> nat" where
  "shape M = (nrows M, ncols M)"

text \<open>\<open>M.T\<close>\<close>

definition transpose_m :: "matrix \<Rightarrow> matrix" where
  "transpose_m M = mk_matrix (ncols M) (nrows M) (\<lambda>i j. entry M j i)"

text \<open>\<open>M[:, b:]\<close> for \<open>b \<ge> 0\<close>: the columns from \<open>b\<close> on; never raises.\<close>

definition slice_cols :: "nat \<Rightarrow> matrix \<Rightarrow> matrix" where
  "slice_cols b M = mk_matrix (nrows M) (ncols M - b) (\<lambda>i j. entry M i (j + b))"

text \<open>\<open>k * M\<close> for a Python float \<open>k\<close>\<close>

definition scale :: "real \<Rightarrow> matrix \<Rightarrow> matrix" where
  "scale k M = mk_matrix (nrows M) (ncols M) (\<lambda>i j. k * entry M i j)"

text \<open>
  \<open>A * B\<close> for two matrices is the matrix product; numpy raises ValueError when the
  inner dimensions differ.
\<close>

definition matmul :: "matrix \<Rightarrow> matrix \<Rightarrow> error + matrix" where
  "matmul A B =
     (if ncols A = nrows B
      then Inr (mk_matrix (nrows A) (ncols B)
                  (\<lambda>i j. sum_list (map (\<lambda>k. entry A i k * entry B k j) [0 ..< ncols A])))
      else Inl (ValueError ''shapes not aligned''))"

text \<open>
  Broadcasting of one axis: equal lengths, or one of them 1. \<open>np.multiply\<close> multiplies
  entry by entry after broadcasting both operands, and raises ValueError when the shapes
  cannot be broadcast.
\<close>

definition broadcast_dim :: "nat \<Rightarrow> nat \<Rightarrow> nat option" where
  "broadcast_dim m n =
     (if m = n then Some m else if m = 1 then Some n else if n = 1 then Some m else None)"

definition bidx :: "nat \<Rightarrow> nat \<Rightarrow> nat" where
  "bidx n i = (if n = 1 then 0 else i)"

definition np_multiply :: "matrix \<Rightarrow> matrix \<Rightarrow> error + matrix" where
  "np_multiply A B =
     (case (broadcast_dim (nrows A) (nrows B), broadcast_dim (ncols A) (ncols B)) of
        (Some r, Some c) \<Rightarrow>
          Inr (mk_matrix r c
                 (\<lambda>i j. entry A (bidx (nrows A) i) (bidx (ncols A) j)
                       * entry B (bidx (nrows B) i) (bidx (ncols B) j)))
      | _ \<Rightarrow> Inl (ValueError ''operands could not be broadcast together''))"

text \<open>
  \<open>G[:, b:] += R\<close>: the in-place addition into the columns of \<open>G\<close> from \<open>b\<close> on.
  \<open>R\<close> is broadcast to the shape of the slice; the shape of \<open>G\<close> never changes, and
  numpy raises ValueError when \<open>R\<close> cannot be broadcast to the slice.
\<close>

definition np_iadd_cols :: "nat \<Rightarrow> matrix \<Rightarrow> matrix \<Rightarrow> error + matrix" where
  "np_iadd_cols b G R =
     (if (nrows R = nrows G \<or> nrows R = 1) \<and> (ncols R = ncols G - b \<or> ncols R = 1)
      then Inr (mk_matrix (nrows G) (ncols G)
                  (\<lambda>i j. if j < b then entry G i j
                         else entry G i j + entry R (bidx (nrows R) i) (bidx (ncols R) (j - b))))
      else Inl (ValueError ''operands could not be broadcast together''))"

text \<open>\<open>np.matrix(v)\<close> of a one-dimensional array: one row.\<close>

definition np_matrix :: "real list \<Rightarrow> matrix" where
  "np_matrix v = mk_matrix 1 (length v) (\<lambda>i j. v ! j)"

text \<open>\<open>np.array(M)[0]\<close>: the first row as a one-dimensional array.\<close>

definition np_array_row0 :: "matrix \<Rightarrow> error + real list" where
  "np_array_row0 M =
     (if nrows M = 0 then Inl (IndexError ''index 0 is out of bounds'')
      else Inr (map (entry M 0) [0 ..< ncols M]))"

section \<open>The network, the error function and the interpreter state\<close>

text \<open>
  Three things of the Python process change while \<open>train\<close> runs: the attribute
  \<open>nnet.weights\<close>, the standard output (\<open>print\<close>), and whatever the collaborators keep
  to themselves (the random generator behind \<open>resetWeights\<close>, the minimizer's own state),
  which is the component \<open>ext\<close>.
\<close>

record 'e state =
  weights :: "matrix list"
  stdout :: "string list"
  ext :: 'e

text \<open>
  The error function and the activation functions are used through \<open>grad\<close> only. They are
  collaborators of the module, so each is a parameter; a numpy shape error inside one is a
  ValueError like any other.
\<close>

record errfn =
  err_grad :: "matrix \<Rightarrow> matrix \<Rightarrow> error + matrix"

record activation =
  act_grad :: "matrix \<Rightarrow> error + matrix"

record layer =
  activationfn :: activation

text \<open>
  The network object, apart from its mutable attribute \<open>weights\<close> (which is in the state).
  \<open>calculateCost\<close> reads the current weights and returns \<open>(z, a, cost)\<close>;
  \<open>resetWeights\<close> reinitialises the weights; \<open>dimensions\<close> reads the shapes of the current
  weights. None of the three is defined in \<open>training.py\<close>: they are fields, and the
  theorems hold for every value of them. \<open>calculateCost\<close> may raise; it is taken to
  read the weights of the network and to leave the state as it is, and \<open>resetWeights\<close>
  and \<open>dimensions\<close> are taken not to raise.
\<close>

record 'e nnet =
  bias :: bool
  layers :: "layer list"
  calculateCost ::
    "matrix list \<Rightarrow> matrix \<Rightarrow> matrix \<Rightarrow> errfn \<Rightarrow> real
       \<Rightarrow> error + (matrix list \<times> matrix list \<times> pyfloat)"
  resetWeights :: "'e state \<Rightarrow> 'e state"
  dimensions :: "matrix list \<Rightarrow> (nat \<times> nat) list"

section \<open>\<open>create_costfn\<close> and the cost function it returns\<close>

text \<open>\<open>a / b\<close> on Python floats raises ZeroDivisionError when \<open>b\<close> is zero.\<close>

definition py_div :: "real \<Rightarrow> real \<Rightarrow> error + real" where
  "py_div a b = (if b = 0 then Inl (ZeroDivisionError ''float division by zero'') else Inr (a / b))"

text \<open>
  The deque \<open>d\<close> holds the deltas and, in front once the loop is over, the filler
  \<open>None\<close>. A product of a float with \<open>None\<close> is a TypeError.
\<close>

definition the_matrix :: "matrix option \<Rightarrow> error + matrix" where
  "the_matrix v =
     (case v of None \<Rightarrow> Inl (TypeError ''unsupported operand type: NoneType'') | Some M \<Rightarrow> Inr M)"

text \<open>
  Line 128: \<open>np.multiply(nnet.layers[-1].activationfn.grad(z[-1]), errfn.grad(h, y))\<close>.
\<close>

definition seed_delta ::
  "'e nnet \<Rightarrow> errfn \<Rightarrow> matrix list \<Rightarrow> matrix \<Rightarrow> matrix \<Rightarrow> error + matrix" where
  "seed_delta nn ef z h y =
     ebind (py_last (layers nn)) (\<lambda>lastl.
     ebind (py_last z) (\<lambda>zl.
     ebind (act_grad (activationfn lastl) zl) (\<lambda>g.
     ebind (err_grad ef h y) (\<lambda>eg.
     np_multiply g eg))))"

text \<open>
  Lines 130 to 134: the loop over \<open>xrange(len(nnet.layers) - 2, 0, -1)\<close>. While it runs the
  deque holds matrices only, and \<open>d.appendleft\<close> is a cons. Line 134 is
  \<open>np.multiply(activationfn.grad(z[i]), weight[:, bias:].T * prevD)\<close>.
\<close>

fun delta_loop ::
  "'e nnet \<Rightarrow> matrix list \<Rightarrow> matrix list \<Rightarrow> nat \<Rightarrow> nat list \<Rightarrow> matrix list
     \<Rightarrow> error + matrix list" where
  "delta_loop nn W z b [] d = Inr d"
| "delta_loop nn W z b (i # is) d =
     ebind (py_index d 0) (\<lambda>prevD.
     ebind (py_index (layers nn) i) (\<lambda>l.
     ebind (py_index W i) (\<lambda>weight.
     ebind (py_index z i) (\<lambda>zi.
     ebind (act_grad (activationfn l) zi) (\<lambda>g.
     ebind (matmul (transpose_m (slice_cols b weight)) prevD) (\<lambda>wd.
     ebind (np_multiply g wd) (\<lambda>di.
     delta_loop nn W z b is (di # d))))))))"

text \<open>
  Lines 125 to 136: the deque of deltas; line 136 puts the filler \<open>None\<close> in front.
\<close>

definition deltas ::
  "'e nnet \<Rightarrow> errfn \<Rightarrow> matrix list \<Rightarrow> matrix list \<Rightarrow> matrix \<Rightarrow> matrix \<Rightarrow> nat
     \<Rightarrow> error + matrix option list" where
  "deltas nn ef W z h y b =
     ebind (seed_delta nn ef z h y) (\<lambda>seed.
     ebind (delta_loop nn W z b (xrange_down (length (layers nn))) [seed]) (\<lambda>d.
     Inr (None # map Some d)))"

text \<open>
  Lines 139 to 148: the loop over \<open>xrange(len(nnet.weights))\<close>, with
  \<open>unreg_grad = (1. / m) * d[i+1] * a[i].T\<close>,
  \<open>reg_grad = (learn_rate / m) * weights[i][:, bias:]\<close> and
  \<open>grad[:, bias:] += reg_grad\<close>, each subexpression in Python's order of evaluation.
\<close>

fun grad_loop ::
  "real \<Rightarrow> real \<Rightarrow> nat \<Rightarrow> matrix list \<Rightarrow> matrix option list \<Rightarrow> matrix list \<Rightarrow> nat list
     \<Rightarrow> matrix list \<Rightarrow> error + matrix list" where
  "grad_loop m learn_rate b W d a [] grads = Inr grads"
| "grad_loop m learn_rate b W d a (i # is) grads =
     ebind (py_div 1 m) (\<lambda>k.
     ebind (py_index d (i + 1)) (\<lambda>di.
     ebind (the_matrix di) (\<lambda>D.
     ebind (py_index a i) (\<lambda>ai.
     ebind (matmul (scale k D) (transpose_m ai)) (\<lambda>unreg_grad.
     ebind (py_div learn_rate m) (\<lambda>k2.
     ebind (py_index W i) (\<lambda>wi.
     ebind (np_iadd_cols b unreg_grad (scale k2 (slice_cols b wi))) (\<lambda>grad.
     grad_loop m learn_rate b W d a is (grads @ [grad])))))))))"

text \<open>What \<open>costfn\<close> returns: \<open>cost\<close> alone, or \<open>(cost, grads)\<close>.\<close>

datatype cost_result = Cost pyfloat | CostGrads pyfloat "matrix list"

text \<open>
  Lines 116 to 152: the body of the \<open>try\<close> block after the assignment of line 113, run in
  the state \<open>s\<close> that the assignment leaves. \<open>weights[i]\<close> reads the argument \<open>W\<close>;
  \<open>calculateCost\<close> and \<open>len(nnet.weights)\<close> read the network.
\<close>

definition costfn_body ::
  "'e nnet \<Rightarrow> matrix \<Rightarrow> matrix \<Rightarrow> real \<Rightarrow> errfn \<Rightarrow> bool \<Rightarrow> matrix list \<Rightarrow> 'e state
     \<Rightarrow> error + cost_result" where
  "costfn_body nn X y learn_rate ef computeGrad W s =
     (let m = real (ncols X); b = (if bias nn then 1 else 0) in
      ebind (calculateCost nn (weights s) X y ef learn_rate) (\<lambda>(z, a, cost).
      ebind (py_last a) (\<lambda>h.
      if computeGrad then
        ebind (deltas nn ef W z h y b) (\<lambda>d.
        ebind (grad_loop m learn_rate b W d a [0 ..< length (weights s)] []) (\<lambda>grads.
        Inr (CostGrads cost grads)))
      else Inr (Cost cost))))"

definition diagnostic :: string where
  "diagnostic =
     ''Calculating cost of a neural network failed. Most likely due to dimension mismatch.''"

text \<open>
  Lines 111 to 155: the assignment \<open>nnet.weights = weights\<close>, the body, and the handler
  \<open>except ValueError: print ...; raise\<close>. Any other exception leaves the \<open>try\<close> untouched.
\<close>

definition costfn ::
  "'e nnet \<Rightarrow> matrix \<Rightarrow> matrix \<Rightarrow> real \<Rightarrow> errfn \<Rightarrow> bool \<Rightarrow> matrix list \<Rightarrow> 'e state
     \<Rightarrow> (error + cost_result) \<times> 'e state" where
  "costfn nn X y learn_rate ef computeGrad W s =
     (let s1 = s\<lparr>weights := W\<rparr> in
      case costfn_body nn X y learn_rate ef computeGrad W s1 of
        Inl e \<Rightarrow>
          (if is_ValueError e then (Inl e, s1\<lparr>stdout := stdout s1 @ [diagnostic]\<rparr>)
           else (Inl e, s1))
      | Inr r \<Rightarrow> (Inr r, s1))"

text \<open>Lines 71 to 156: \<open>create_costfn\<close> returns the closure.\<close>

definition create_costfn ::
  "'e nnet \<Rightarrow> matrix \<Rightarrow> matrix \<Rightarrow> real \<Rightarrow> errfn \<Rightarrow> bool
     \<Rightarrow> (matrix list \<Rightarrow> 'e state \<Rightarrow> (error + cost_result) \<times> 'e state)" where
  "create_costfn nn X y learn_rate ef computeGrad = costfn nn X y learn_rate ef computeGrad"

section \<open>\<open>train\<close>\<close>

text \<open>
  The module \<open>util\<close> is not part of \<open>training.py\<close>: its two functions are parameters.
  \<open>unroll_matrices\<close> returns a matrix (the code transposes it and takes row 0), and
  \<open>reshape_vector\<close> takes a matrix and the dimensions.
\<close>

record util =
  unroll_matrices :: "matrix list \<Rightarrow> error + matrix"
  reshape_vector :: "matrix \<Rightarrow> (nat \<times> nat) list \<Rightarrow> error + matrix list"

text \<open>The object a minimizer returns.\<close>

record result =
  success :: bool
  res_x :: "real list"
  res_fun :: pyfloat

type_synonym 'e objective =
  "real list \<Rightarrow> 'e state \<Rightarrow> (error + (pyfloat \<times> real list)) \<times> 'e state"

text \<open>
  The minimizer is a parameter of \<open>train\<close>. It gets the function to minimize and the
  initial vector; it may call the function any number of times, keep state of its own, and
  raise.
\<close>

type_synonym 'e minimizer =
  "'e objective \<Rightarrow> real list \<Rightarrow> 'e state \<Rightarrow> (error + result) \<times> 'e state"

text \<open>\<open>np.array(unroll_matrices(ms).T)[0]\<close>, lines 53 and 59.\<close>

definition unrolled :: "util \<Rightarrow> matrix list \<Rightarrow> error + real list" where
  "unrolled u ms = ebind (unroll_matrices u ms) (\<lambda>m. np_array_row0 (transpose_m m))"

text \<open>
  Lines 42 to 53. The unpacking \<open>cost, grad = costfn(...)\<close> of a float is a TypeError.
\<close>

definition flattened_costfn ::
  "util \<Rightarrow> (matrix list \<Rightarrow> 'e state \<Rightarrow> (error + cost_result) \<times> 'e state)
     \<Rightarrow> (nat \<times> nat) list \<Rightarrow> 'e objective" where
  "flattened_costfn u cf dims v s =
     (case reshape_vector u (np_matrix v) dims of
        Inl e \<Rightarrow> (Inl e, s)
      | Inr W \<Rightarrow>
          (case cf W s of
             (Inl e, s') \<Rightarrow> (Inl e, s')
           | (Inr (Cost c), s') \<Rightarrow> (Inl (TypeError ''float object is not iterable''), s')
           | (Inr (CostGrads cost grad), s') \<Rightarrow>
               (case unrolled u grad of
                  Inl e \<Rightarrow> (Inl e, s')
                | Inr g \<Rightarrow> (Inr (cost, g), s'))))"

text \<open>Lines 61 to 63: the bookkeeping of one restart.\<close>

fun train_step :: "result option \<times> pyfloat \<Rightarrow> result \<Rightarrow> result option \<times> pyfloat" where
  "train_step (best_result, min_error) r =
     (if success r \<and> float_lt (res_fun r) min_error then (Some r, res_fun r)
      else (best_result, min_error))"

text \<open>Lines 57 to 63: the loop, with the number of iterations left.\<close>

fun train_loop ::
  "'e nnet \<Rightarrow> util \<Rightarrow> 'e minimizer \<Rightarrow> 'e objective \<Rightarrow> nat
     \<Rightarrow> result option \<times> pyfloat \<Rightarrow> 'e state
     \<Rightarrow> (error + result option \<times> pyfloat) \<times> 'e state" where
  "train_loop nn u mini f 0 bm s = (Inr bm, s)"
| "train_loop nn u mini f (Suc n) bm s =
     (let s1 = resetWeights nn s in
      case unrolled u (weights s1) of
        Inl e \<Rightarrow> (Inl e, s1)
      | Inr initial_weights \<Rightarrow>
          (case mini f initial_weights s1 of
             (Inl e, s2) \<Rightarrow> (Inl e, s2)
           | (Inr r, s2) \<Rightarrow> train_loop nn u mini f n (train_step bm r) s2))"

text \<open>
  Lines 40 to 69. \<open>xrange(iterations)\<close> is empty for a negative number. \<open>dimensions\<close> is
  read once, in the state \<open>train\<close> starts in.
\<close>

definition train ::
  "'e nnet \<Rightarrow> matrix \<Rightarrow> matrix \<Rightarrow> real \<Rightarrow> errfn \<Rightarrow> 'e minimizer \<Rightarrow> int \<Rightarrow> util \<Rightarrow> 'e state
     \<Rightarrow> (error + result option) \<times> 'e state" where
  "train nn X y learn_rate ef mini iterations u s =
     (let cf = create_costfn nn X y learn_rate ef True;
          dims = dimensions nn (weights s)
      in case train_loop nn u mini (flattened_costfn u cf dims) (nat iterations) (None, PInf) s of
           (Inl e, s') \<Rightarrow> (Inl e, s')
         | (Inr (best_result, min_error), s') \<Rightarrow>
             (case best_result of
                None \<Rightarrow> (Inr None, s')
              | Some r \<Rightarrow>
                  (case reshape_vector u (np_matrix (res_x r)) dims of
                     Inl e \<Rightarrow> (Inl e, s')
                   | Inr min_weights \<Rightarrow> (Inr (Some r), s'\<lparr>weights := min_weights\<rparr>))))"

subsection \<open>Observations of a run\<close>

text \<open>
  The results the minimizer returns, restart by restart, and the states it leaves, in a run
  of the loop of \<open>n\<close> iterations from \<open>s\<close>. Both follow \<open>train_loop\<close> step by step and
  stop where it raises.
\<close>

fun minimizer_results ::
  "'e nnet \<Rightarrow> util \<Rightarrow> 'e minimizer \<Rightarrow> 'e objective \<Rightarrow> nat \<Rightarrow> 'e state \<Rightarrow> result list" where
  "minimizer_results nn u mini f 0 s = []"
| "minimizer_results nn u mini f (Suc n) s =
     (let s1 = resetWeights nn s in
      case unrolled u (weights s1) of
        Inl e \<Rightarrow> []
      | Inr initial_weights \<Rightarrow>
          (case mini f initial_weights s1 of
             (Inl e, s2) \<Rightarrow> []
           | (Inr r, s2) \<Rightarrow> r # minimizer_results nn u mini f n s2))"

fun restart_states ::
  "'e nnet \<Rightarrow> util \<Rightarrow> 'e minimizer \<Rightarrow> 'e objective \<Rightarrow> nat \<Rightarrow> 'e state \<Rightarrow> 'e state list" where
  "restart_states nn u mini f 0 s = []"
| "restart_states nn u mini f (Suc n) s =
     (let s1 = resetWeights nn s in
      case unrolled u (weights s1) of
        Inl e \<Rightarrow> []
      | Inr initial_weights \<Rightarrow>
          (case mini f initial_weights s1 of
             (Inl e, s2) \<Rightarrow> []
           | (Inr r, s2) \<Rightarrow> s2 # restart_states nn u mini f n s2))"

section \<open>A small network, a dataset and mock minimizers\<close>

text \<open>
  Concrete collaborators, for evaluating the definitions above on inputs: a network with
  identity activations and one bias unit per layer, the squared error, the row-major
  flattening, and minimizers that return prepared results.
\<close>

definition m_sub :: "matrix \<Rightarrow> matrix \<Rightarrow> error + matrix" where
  "m_sub A B =
     (if shape A = shape B
      then Inr (mk_matrix (nrows A) (ncols A) (\<lambda>i j. entry A i j - entry B i j))
      else Inl (ValueError ''operands could not be broadcast together''))"

definition sum_sq :: "matrix \<Rightarrow> real" where
  "sum_sq M = sum_list (map (\<lambda>r. sum_list (map (\<lambda>v. v * v) r)) (elems M))"

definition add_bias_row :: "matrix \<Rightarrow> matrix" where
  "add_bias_row A =
     mk_matrix (nrows A + 1) (ncols A) (\<lambda>i j. if i = 0 then 1 else entry A (i - 1) j)"

definition ones_like :: "matrix \<Rightarrow> matrix" where
  "ones_like A = mk_matrix (nrows A) (ncols A) (\<lambda>i j. 1)"

definition identity_fn :: activation where
  "identity_fn = \<lparr>act_grad = (\<lambda>z. Inr (ones_like z))\<rparr>"

definition squared_error :: errfn where
  "squared_error = \<lparr>err_grad = (\<lambda>h y. m_sub h y)\<rparr>"

fun ex_forward :: "matrix list \<Rightarrow> matrix \<Rightarrow> error + (matrix list \<times> matrix list)" where
  "ex_forward [] x = Inr ([], [x])"
| "ex_forward (w # ws) x =
     (let xb = add_bias_row x in
      ebind (matmul w xb) (\<lambda>zn.
      ebind (ex_forward ws zn) (\<lambda>(zs, as). Inr (zn # zs, xb # as))))"

definition ex_calculateCost ::
  "matrix list \<Rightarrow> matrix \<Rightarrow> matrix \<Rightarrow> errfn \<Rightarrow> real
     \<Rightarrow> error + (matrix list \<times> matrix list \<times> pyfloat)" where
  "ex_calculateCost W X y ef learn_rate =
     ebind (ex_forward W X) (\<lambda>(zs, as).
     ebind (m_sub (last as) y) (\<lambda>diff.
     Inr (X # zs, as,
          Fin ((sum_sq diff + learn_rate * sum_list (map (\<lambda>w. sum_sq (slice_cols 1 w)) W))
               / (2 * real (ncols X))))))"

definition ex_nnet :: "nat \<Rightarrow> nat nnet" where
  "ex_nnet L =
     \<lparr>bias = True,
      layers = replicate L \<lparr>activationfn = identity_fn\<rparr>,
      calculateCost = ex_calculateCost,
      resetWeights = (\<lambda>s. s\<lparr>weights := map (\<lambda>w. mk_matrix (nrows w) (ncols w) (\<lambda>i j. 0))
                                           (weights s)\<rparr>),
      dimensions = map shape\<rparr>"

text \<open>
  Modelled from the spec: \<open>util.unroll_matrices\<close> and \<open>util.reshape_vector\<close>, which
  \<open>training.py\<close> imports and does not define. The spec: the flat form is "produced by
  unrolling all W[i] in layer order, row-major within each matrix", and the inverse reshapes
  "given a dimensions descriptor (list of (rows, cols) per layer)". The unrolled vector is a
  column, as line 53 transposes it before it takes row 0. The theorems below take the two
  functions as the parameter \<open>u\<close>; this instance only runs the examples.
\<close>

fun reshape_list :: "real list \<Rightarrow> (nat \<times> nat) list \<Rightarrow> error + matrix list" where
  "reshape_list v [] =
     (if v = [] then Inr [] else Inl (ValueError ''vector too long for the dimensions''))"
| "reshape_list v ((r, c) # ds) =
     (if length v < r * c then Inl (ValueError ''vector too short for the dimensions'')
      else ebind (reshape_list (drop (r * c) v) ds) (\<lambda>ms.
           Inr (mk_matrix r c (\<lambda>i j. v ! (i * c + j)) # ms)))"

definition ex_util :: util where
  "ex_util =
     \<lparr>unroll_matrices =
        (\<lambda>ms. let v = concat (map (\<lambda>m. concat (elems m)) ms)
              in Inr (mk_matrix (length v) 1 (\<lambda>i j. v ! i))),
      reshape_vector = (\<lambda>m dims. reshape_list (concat (elems m)) dims)\<rparr>"

text \<open>
  A mock minimizer: it never calls the objective, and its \<open>k\<close>-th call returns the
  \<open>k\<close>-th prepared result (the last one again when the list is used up); the counter is
  its own state.
\<close>

definition mock_minimizer :: "result list \<Rightarrow> nat minimizer" where
  "mock_minimizer rs f v s = (Inr (rs ! min (ext s) (length rs - 1)), s\<lparr>ext := ext s + 1\<rparr>)"

definition mat :: "real list list \<Rightarrow> matrix" where
  "mat rs = Matrix (length rs) (length (hd rs)) rs"

text \<open>
  One training example for the network of three layers with one unit each: two weight
  matrices of shape 1 by 2 (bias column first).
\<close>

definition ex_W :: "matrix list" where
  "ex_W = [mat [[1, 2]], mat [[3, 4]]]"

definition ex_W_bad :: "matrix list" where
  "ex_W_bad = [mat [[1, 2]], mat [[3, 4, 5]]]"

definition ex_X :: matrix where
  "ex_X = mat [[5]]"

definition ex_y :: matrix where
  "ex_y = mat [[30]]"

definition ex_s0 :: "nat state" where
  "ex_s0 = \<lparr>weights = [mat [[0, 0]], mat [[0, 0]]], stdout = [], ext = 0\<rparr>"

section \<open>Notions used in the statements\<close>

text \<open>
  The function that \<open>train\<close> hands to the minimizer: \<open>flattened_costfn\<close> over the cost
  function with the gradient and the dimensions read when \<open>train\<close> starts in \<open>s\<close>.
\<close>

definition train_objective ::
  "'e nnet \<Rightarrow> matrix \<Rightarrow> matrix \<Rightarrow> real \<Rightarrow> errfn \<Rightarrow> util \<Rightarrow> 'e state \<Rightarrow> 'e objective" where
  "train_objective nn X y learn_rate ef u s =
     flattened_costfn u (create_costfn nn X y learn_rate ef True) (dimensions nn (weights s))"

text \<open>
  The results the minimizer returns in a run of \<open>train\<close>, and the states it leaves after
  each restart.
\<close>

definition train_results ::
  "'e nnet \<Rightarrow> matrix \<Rightarrow> matrix \<Rightarrow> real \<Rightarrow> errfn \<Rightarrow> 'e minimizer \<Rightarrow> int \<Rightarrow> util \<Rightarrow> 'e state
     \<Rightarrow> result list" where
  "train_results nn X y learn_rate ef mini iterations u s =
     minimizer_results nn u mini (train_objective nn X y learn_rate ef u s) (nat iterations) s"

definition train_states ::
  "'e nnet \<Rightarrow> matrix \<Rightarrow> matrix \<Rightarrow> real \<Rightarrow> errfn \<Rightarrow> 'e minimizer \<Rightarrow> int \<Rightarrow> util \<Rightarrow> 'e state
     \<Rightarrow> 'e state list" where
  "train_states nn X y learn_rate ef mini iterations u s =
     restart_states nn u mini (train_objective nn X y learn_rate ef u s) (nat iterations) s"

text \<open>
  The bookkeeping \<open>(best_result, min_error)\<close> is right for the results \<open>seen\<close> so far:
  nothing is recorded when no successful result has a cost below \<open>float('infinity')\<close>;
  otherwise the recorded result is a successful one of least cost, and no successful result
  before it has a cost as low.
\<close>

definition is_best :: "result list \<Rightarrow> result option \<times> pyfloat \<Rightarrow> bool" where
  "is_best seen bm =
     (case bm of
        (None, me) \<Rightarrow> me = PInf \<and> (\<forall>x\<in>set seen. success x \<longrightarrow> \<not> float_lt (res_fun x) PInf)
      | (Some r, me) \<Rightarrow>
          me = res_fun r \<and> success r \<and> float_lt (res_fun r) PInf
          \<and> (\<exists>pre post. seen = pre @ r # post
                \<and> (\<forall>x\<in>set pre. success x \<longrightarrow> \<not> float_le (res_fun x) (res_fun r))
                \<and> (\<forall>x\<in>set post. success x \<longrightarrow> \<not> float_lt (res_fun x) (res_fun r))))"

text \<open>
  The adapter in the words of the specification: "given a flat vector \<open>v\<close>, reshape into
  per-layer matrices using \<open>dimensions\<close>, evaluate the factory's \<open>costfn\<close> to get
  \<open>(cost, gradients)\<close>, flatten \<open>gradients\<close> back into a single vector, and return
  \<open>(cost, flat_gradient)\<close>". Here \<open>reshape\<close> and \<open>unroll\<close> work on flat vectors, and
  the two components of what the cost function returns are read by \<open>cost_of\<close> and
  \<open>gradients_of\<close>.
\<close>

fun cost_of :: "cost_result \<Rightarrow> pyfloat" where
  "cost_of (Cost c) = c"
| "cost_of (CostGrads c g) = c"

fun gradients_of :: "cost_result \<Rightarrow> matrix list" where
  "gradients_of (Cost c) = []"
| "gradients_of (CostGrads c g) = g"

definition adapter_spec ::
  "(real list \<Rightarrow> (nat \<times> nat) list \<Rightarrow> error + matrix list) \<Rightarrow> (matrix list \<Rightarrow> error + real list)
     \<Rightarrow> (matrix list \<Rightarrow> 'e state \<Rightarrow> (error + cost_result) \<times> 'e state)
     \<Rightarrow> (nat \<times> nat) list \<Rightarrow> 'e objective" where
  "adapter_spec reshape unroll cf dims v s =
     (case reshape v dims of
        Inl e \<Rightarrow> (Inl e, s)
      | Inr W \<Rightarrow>
          (case cf W s of
             (Inl e, s') \<Rightarrow> (Inl e, s')
           | (Inr res, s') \<Rightarrow>
               (case unroll (gradients_of res) of
                  Inl e \<Rightarrow> (Inl e, s')
                | Inr flat_gradient \<Rightarrow> (Inr (cost_of res, flat_gradient), s'))))"

text \<open>Prepared results for the mock minimizer.\<close>

definition ex_r1 :: result where
  "ex_r1 = \<lparr>success = True, res_x = [1, 2, 3, 4], res_fun = Fin 3\<rparr>"

definition ex_r2 :: result where
  "ex_r2 = \<lparr>success = False, res_x = [0, 0, 0, 1], res_fun = Fin 1\<rparr>"

definition ex_r3 :: result where
  "ex_r3 = \<lparr>success = True, res_x = [5, 6, 7, 8], res_fun = Fin 2\<rparr>"

definition ex_r4 :: result where
  "ex_r4 = \<lparr>success = True, res_x = [9, 9, 9, 9], res_fun = Fin 2\<rparr>"

definition ex_rinf :: result where
  "ex_rinf = \<lparr>success = True, res_x = [1, 2, 3, 4], res_fun = PInf\<rparr>"

text \<open>
  One step of each loop of the backward pass, as a relation between the matrices involved:
  \<open>di\<close> is the delta of the hidden layer \<open>i\<close> computed from the delta \<open>dn\<close> of the
  layer after it, and \<open>G\<close> is the gradient of the weight layer \<open>i\<close>.
\<close>

definition is_hidden_delta ::
  "'e nnet \<Rightarrow> matrix list \<Rightarrow> matrix list \<Rightarrow> nat \<Rightarrow> nat \<Rightarrow> matrix \<Rightarrow> matrix \<Rightarrow> bool" where
  "is_hidden_delta nn W z b i dn di =
     (i < length (layers nn) \<and> i < length W \<and> i < length z
      \<and> (\<exists>g wd. act_grad (activationfn (layers nn ! i)) (z ! i) = Inr g
             \<and> matmul (transpose_m (slice_cols b (W ! i))) dn = Inr wd
             \<and> np_multiply g wd = Inr di))"


text \<open>
  The elementwise product of numpy, entry by entry: \<open>P\<close> is \<open>A \<odot> B\<close>, where an
  operand with one row (one column) is repeated along that axis.
\<close>

definition is_elementwise_product :: "matrix \<Rightarrow> matrix \<Rightarrow> matrix \<Rightarrow> bool" where
  "is_elementwise_product A B P =
     ((nrows A = nrows B \<or> nrows A = 1 \<or> nrows B = 1)
      \<and> (ncols A = ncols B \<or> ncols A = 1 \<or> ncols B = 1)
      \<and> nrows P = (if nrows A = 1 then nrows B else nrows A)
      \<and> ncols P = (if ncols A = 1 then ncols B else ncols A)
      \<and> (\<forall>r<nrows P. \<forall>j<ncols P.
            entry P r j =
              entry A (if nrows A = 1 then 0 else r) (if ncols A = 1 then 0 else j)
              * entry B (if nrows B = 1 then 0 else r) (if ncols B = 1 then 0 else j)))"

text \<open>
  A second network, for examples with matrices larger than 1 by 1: every layer has the
  activation \<open>f(z) = k z\<close>, whose gradient is \<open>k\<close> everywhere, and the error is the squared
  error written with numpy's subtraction, which broadcasts like \<open>np.multiply\<close>.
\<close>

definition np_subtract :: "matrix \<Rightarrow> matrix \<Rightarrow> error + matrix" where
  "np_subtract A B =
     (case (broadcast_dim (nrows A) (nrows B), broadcast_dim (ncols A) (ncols B)) of
        (Some r, Some c) \<Rightarrow>
          Inr (mk_matrix r c
                 (\<lambda>i j. entry A (bidx (nrows A) i) (bidx (ncols A) j)
                       - entry B (bidx (nrows B) i) (bidx (ncols B) j)))
      | _ \<Rightarrow> Inl (ValueError ''operands could not be broadcast together''))"

definition linear_fn :: "real \<Rightarrow> activation" where
  "linear_fn k = \<lparr>act_grad = (\<lambda>z. Inr (mk_matrix (nrows z) (ncols z) (\<lambda>i j. k)))\<rparr>"

definition numpy_squared_error :: errfn where
  "numpy_squared_error = \<lparr>err_grad = np_subtract\<rparr>"

fun lin_forward :: "real \<Rightarrow> matrix list \<Rightarrow> matrix \<Rightarrow> error + (matrix list \<times> matrix list)" where
  "lin_forward k [] x = Inr ([], [x])"
| "lin_forward k (w # ws) x =
     (let xb = add_bias_row x in
      ebind (matmul w xb) (\<lambda>zn.
      ebind (lin_forward k ws (scale k zn)) (\<lambda>(zs, as). Inr (zn # zs, xb # as))))"

definition lin_calculateCost ::
  "real \<Rightarrow> matrix list \<Rightarrow> matrix \<Rightarrow> matrix \<Rightarrow> errfn \<Rightarrow> real
     \<Rightarrow> error + (matrix list \<times> matrix list \<times> pyfloat)" where
  "lin_calculateCost k W X y ef learn_rate =
     ebind (lin_forward k W X) (\<lambda>(zs, as).
     ebind (np_subtract (last as) y) (\<lambda>diff.
     Inr (X # zs, as,
          Fin ((sum_sq diff + learn_rate * sum_list (map (\<lambda>w. sum_sq (slice_cols 1 w)) W))
               / (2 * real (ncols X))))))"

definition lin_nnet :: "real \<Rightarrow> nat \<Rightarrow> nat nnet" where
  "lin_nnet k L =
     \<lparr>bias = True,
      layers = replicate L \<lparr>activationfn = linear_fn k\<rparr>,
      calculateCost = lin_calculateCost k,
      resetWeights = (\<lambda>s. s),
      dimensions = map shape\<rparr>"

text \<open>
  Two training examples for the network of one input unit, two hidden units and one output
  unit with \<open>k = 2\<close>; then the forward pass, the deltas and the gradients of this example.
\<close>

definition ex2_W :: "matrix list" where
  "ex2_W = [mat [[1, 2], [0, 1]], mat [[1, 1, 2]]]"

definition ex2_X :: matrix where
  "ex2_X = mat [[1, 3]]"

definition ex2_y :: matrix where
  "ex2_y = mat [[10, 20]]"

definition ex2_z :: "matrix list" where
  "ex2_z = [mat [[1, 3]], mat [[3, 7], [1, 3]], mat [[11, 27]]]"

definition ex2_a :: "matrix list" where
  "ex2_a = [mat [[1, 1], [1, 3]], mat [[1, 1], [6, 14], [2, 6]], mat [[22, 54]]]"

definition ex2_d :: "matrix option list" where
  "ex2_d = [None, Some (mat [[48, 136], [96, 272]]), Some (mat [[24, 68]])]"

definition ex2_grads :: "matrix list" where
  "ex2_grads = [mat [[92, 229], [184, 913 / 2]], mat [[46, 1097 / 2, 229]]]"



section \<open>The cost function and the state of the network\<close>

lemma costfn_snd:
  "snd (costfn nn X y lr ef cg W s) =
     (case costfn_body nn X y lr ef cg W (s\<lparr>weights := W\<rparr>) of
        Inl e \<Rightarrow> if is_ValueError e then s\<lparr>weights := W, stdout := stdout s @ [diagnostic]\<rparr>
                 else s\<lparr>weights := W\<rparr>
      | Inr r \<Rightarrow> s\<lparr>weights := W\<rparr>)"
  by (simp add: costfn_def Let_def split: sum.splits)

lemma costfn_fst:
  "fst (costfn nn X y lr ef cg W s) = costfn_body nn X y lr ef cg W (s\<lparr>weights := W\<rparr>)"
  by (simp add: costfn_def Let_def split: sum.splits)

lemma ex_run:
  "costfn (ex_nnet 3) ex_X ex_y 1 squared_error True ex_W ex_s0 =
     (Inr (CostGrads (Fin (309 / 2)) [mat [[68, 342]], mat [[17, 191]]]),
      ex_s0\<lparr>weights := ex_W\<rparr>)"
  by code_simp

lemma ex_run_bad:
  "costfn (ex_nnet 3) ex_X ex_y 1 squared_error True ex_W_bad ex_s0 =
     (Inl (ValueError ''shapes not aligned''),
      ex_s0\<lparr>weights := ex_W_bad, stdout := [diagnostic]\<rparr>)"
  by code_simp

text \<open>
  Claim C8. Every call of \<open>costfn\<close>, with or without the gradient, for every argument
  \<open>W\<close> and from every state, leaves \<open>W\<close> as the weights of the network. The assignment
  comes before everything else: the outcome of the call is the same whatever weights the
  network had before, and the result is the one the body computes in the state where the
  weights of the network are \<open>W\<close>.
\<close>

theorem costfn_installs_weights:
  "weights (snd (costfn nn X y lr ef cg W s)) = W
   \<and> costfn nn X y lr ef cg W (s\<lparr>weights := W0\<rparr>) = costfn nn X y lr ef cg W s
   \<and> fst (costfn nn X y lr ef cg W s) = costfn_body nn X y lr ef cg W (s\<lparr>weights := W\<rparr>)"
  by (simp add: costfn_snd costfn_fst split: sum.splits) (simp add: costfn_def)

theorem costfn_installs_weights_witness:
  "weights (snd (costfn (ex_nnet 3) ex_X ex_y 1 squared_error False ex_W ex_s0)) = ex_W
   \<and> costfn (ex_nnet 3) ex_X ex_y 1 squared_error False ex_W (ex_s0\<lparr>weights := ex_W_bad\<rparr>)
       = costfn (ex_nnet 3) ex_X ex_y 1 squared_error False ex_W ex_s0
   \<and> weights ex_s0 \<noteq> ex_W"
proof -
  have "weights ex_s0 \<noteq> ex_W"
    by code_simp
  then show ?thesis
    using costfn_installs_weights
      [of "ex_nnet 3" ex_X ex_y 1 squared_error False ex_W ex_s0 ex_W_bad]
    by simp
qed

text \<open>
  Claim C9. When \<open>costfn\<close> raises, whatever the exception, the weights of the network
  are the argument \<open>W\<close> of the failed call: the assignment of line 113 is not undone, and
  the weights the network had before the call are gone. Nothing else of the collaborators'
  state is touched.
\<close>

theorem costfn_not_atomic:
  "fst (costfn nn X y lr ef cg W s) = Inl e \<Longrightarrow>
     weights (snd (costfn nn X y lr ef cg W s)) = W
     \<and> ext (snd (costfn nn X y lr ef cg W s)) = ext s"
  by (simp add: costfn_snd split: sum.splits)

theorem costfn_not_atomic_witness:
  "fst (costfn (ex_nnet 3) ex_X ex_y 1 squared_error True ex_W_bad ex_s0)
     = Inl (ValueError ''shapes not aligned'')
   \<and> weights (snd (costfn (ex_nnet 3) ex_X ex_y 1 squared_error True ex_W_bad ex_s0)) = ex_W_bad
   \<and> weights ex_s0 \<noteq> ex_W_bad"
proof -
  have h: "fst (costfn (ex_nnet 3) ex_X ex_y 1 squared_error True ex_W_bad ex_s0)
             = Inl (ValueError ''shapes not aligned'')"
    by (simp add: ex_run_bad)
  have "weights ex_s0 \<noteq> ex_W_bad"
    by code_simp
  then show ?thesis
    using h costfn_not_atomic [OF h] by simp
qed

subsection \<open>Failures of the cost function\<close>

lemma ebind_Inr_iff: "ebind m f = Inr v \<longleftrightarrow> (\<exists>a. m = Inr a \<and> f a = Inr v)"
  by (cases m) (simp_all add: ebind_def)

lemma ebind_Inl_iff: "ebind m f = Inl e \<longleftrightarrow> (m = Inl e \<or> (\<exists>a. m = Inr a \<and> f a = Inl e))"
  by (cases m) (simp_all add: ebind_def)

lemma matmul_error: "matmul A B = Inl e \<Longrightarrow> is_ValueError e"
  by (auto simp: matmul_def split: if_splits)

lemma np_multiply_error: "np_multiply A B = Inl e \<Longrightarrow> is_ValueError e"
  by (auto simp: np_multiply_def split: option.splits)

lemma np_iadd_cols_error: "np_iadd_cols b G R = Inl e \<Longrightarrow> is_ValueError e"
  by (auto simp: np_iadd_cols_def split: if_splits)

lemma ex_body_bad:
  "costfn_body (ex_nnet 3) ex_X ex_y 1 squared_error True ex_W_bad (ex_s0\<lparr>weights := ex_W_bad\<rparr>)
     = Inl (ValueError ''shapes not aligned'')"
  by code_simp

lemma ex_matmul_bad:
  "matmul (mat [[3, 4, 5]]) (mat [[1], [11]]) = Inl (ValueError ''shapes not aligned'')"
  by code_simp

text \<open>
  Claim C6. A dimension mismatch is numpy's ValueError: the three matrix operations of
  \<open>costfn\<close> that check shapes fail with nothing else. When the body of the \<open>try\<close> block
  raises a ValueError, \<open>costfn\<close> prints the diagnostic once (one line more on the standard
  output) and raises the same exception, with the same message. It does not recover: when
  \<open>costfn\<close> returns a value, the body returned that value and nothing was printed.
\<close>

theorem costfn_logs_and_reraises:
  "(costfn_body nn X y lr ef cg W (s\<lparr>weights := W\<rparr>) = Inl (ValueError msg) \<longrightarrow>
      costfn nn X y lr ef cg W s
        = (Inl (ValueError msg), s\<lparr>weights := W, stdout := stdout s @ [diagnostic]\<rparr>))
   \<and> (fst (costfn nn X y lr ef cg W s) = Inr r \<longrightarrow>
        costfn_body nn X y lr ef cg W (s\<lparr>weights := W\<rparr>) = Inr r
        \<and> stdout (snd (costfn nn X y lr ef cg W s)) = stdout s)
   \<and> (matmul A B = Inl e \<or> np_multiply A B = Inl e \<or> np_iadd_cols b A B = Inl e \<longrightarrow>
        is_ValueError e)"
proof (intro conjI impI)
  assume "costfn_body nn X y lr ef cg W (s\<lparr>weights := W\<rparr>) = Inl (ValueError msg)"
  then show "costfn nn X y lr ef cg W s
        = (Inl (ValueError msg), s\<lparr>weights := W, stdout := stdout s @ [diagnostic]\<rparr>)"
    by (simp add: costfn_def)
next
  assume a: "fst (costfn nn X y lr ef cg W s) = Inr r"
  then show "costfn_body nn X y lr ef cg W (s\<lparr>weights := W\<rparr>) = Inr r"
    by (simp add: costfn_fst)
  with a show "stdout (snd (costfn nn X y lr ef cg W s)) = stdout s"
    by (simp add: costfn_snd)
next
  assume "matmul A B = Inl e \<or> np_multiply A B = Inl e \<or> np_iadd_cols b A B = Inl e"
  then show "is_ValueError e"
    using matmul_error np_multiply_error np_iadd_cols_error by blast
qed

theorem costfn_logs_and_reraises_witness:
  "costfn (ex_nnet 3) ex_X ex_y 1 squared_error True ex_W_bad ex_s0
     = (Inl (ValueError ''shapes not aligned''),
        ex_s0\<lparr>weights := ex_W_bad, stdout := stdout ex_s0 @ [diagnostic]\<rparr>)
   \<and> costfn_body (ex_nnet 3) ex_X ex_y 1 squared_error True ex_W (ex_s0\<lparr>weights := ex_W\<rparr>)
       = Inr (CostGrads (Fin (309 / 2)) [mat [[68, 342]], mat [[17, 191]]])
   \<and> stdout (snd (costfn (ex_nnet 3) ex_X ex_y 1 squared_error True ex_W ex_s0)) = stdout ex_s0
   \<and> is_ValueError (ValueError ''shapes not aligned'')"
proof -
  have ok: "fst (costfn (ex_nnet 3) ex_X ex_y 1 squared_error True ex_W ex_s0)
              = Inr (CostGrads (Fin (309 / 2)) [mat [[68, 342]], mat [[17, 191]]])"
    by (simp add: ex_run)
  from costfn_logs_and_reraises
         [of "ex_nnet 3" ex_X ex_y 1 squared_error True ex_W_bad ex_s0 "''shapes not aligned''"
             "CostGrads (Fin (309 / 2)) [mat [[68, 342]], mat [[17, 191]]]"
             "mat [[3, 4, 5]]" "mat [[1], [11]]" "ValueError ''shapes not aligned''" 0]
       ex_body_bad ex_matmul_bad
  have bad: "costfn (ex_nnet 3) ex_X ex_y 1 squared_error True ex_W_bad ex_s0
     = (Inl (ValueError ''shapes not aligned''),
        ex_s0\<lparr>weights := ex_W_bad, stdout := stdout ex_s0 @ [diagnostic]\<rparr>)"
    and v: "is_ValueError (ValueError ''shapes not aligned'')"
    by simp_all
  from costfn_logs_and_reraises
         [of "ex_nnet 3" ex_X ex_y 1 squared_error True ex_W ex_s0 "[]"
             "CostGrads (Fin (309 / 2)) [mat [[68, 342]], mat [[17, 191]]]"]
       ok
  have "costfn_body (ex_nnet 3) ex_X ex_y 1 squared_error True ex_W (ex_s0\<lparr>weights := ex_W\<rparr>)
       = Inr (CostGrads (Fin (309 / 2)) [mat [[68, 342]], mat [[17, 191]]])
   \<and> stdout (snd (costfn (ex_nnet 3) ex_X ex_y 1 squared_error True ex_W ex_s0)) = stdout ex_s0"
    by blast
  with bad v show ?thesis by blast
qed

section \<open>The flattened cost function\<close>

lemma costfn_body_grad_not_Cost: "costfn_body nn X y lr ef True W s \<noteq> Inr (Cost c)"
  by (auto simp: costfn_body_def Let_def ebind_Inr_iff split: prod.splits)

lemma costfn_grad_not_Cost: "costfn nn X y lr ef True W s \<noteq> (Inr (Cost c), s')"
  using costfn_fst [of nn X y lr ef True W s] costfn_body_grad_not_Cost [of nn X y lr ef W]
  by (metis fst_conv)

lemma ex_objective_run:
  "train_objective (ex_nnet 3) ex_X ex_y 1 squared_error ex_util ex_s0 [1, 2, 3, 4] ex_s0
     = (Inr (Fin (309 / 2), [68, 342, 17, 191]), ex_s0\<lparr>weights := ex_W\<rparr>)"
  by code_simp

text \<open>
  Claim C7. The function \<open>train\<close> hands to the minimizer is the adapter of the
  specification, for every flat vector and every state: reshape with the dimensions read at
  the start, the cost function with the gradient, unroll. The unpacking
  \<open>cost, grad = costfn(...)\<close> never fails, because the cost function \<open>train\<close> creates
  never returns the cost alone.
\<close>

theorem flattened_costfn_is_conjugate:
  "train_objective nn X y lr ef u s0 v s =
     adapter_spec (\<lambda>v. reshape_vector u (np_matrix v)) (unrolled u) (costfn nn X y lr ef True)
       (dimensions nn (weights s0)) v s
   \<and> fst (costfn nn X y lr ef True W s) \<noteq> Inr (Cost c)"
proof
  show "train_objective nn X y lr ef u s0 v s =
     adapter_spec (\<lambda>v. reshape_vector u (np_matrix v)) (unrolled u) (costfn nn X y lr ef True)
       (dimensions nn (weights s0)) v s"
  proof (cases "reshape_vector u (np_matrix v) (dimensions nn (weights s0))")
    case (Inl e)
    then show ?thesis
      by (simp add: train_objective_def flattened_costfn_def adapter_spec_def)
  next
    case (Inr W')
    obtain res s' where r: "costfn nn X y lr ef True W' s = (res, s')"
      by (cases "costfn nn X y lr ef True W' s")
    show ?thesis
    proof (cases res)
      case (Inl e)
      with Inr r show ?thesis
        by (simp add: train_objective_def flattened_costfn_def adapter_spec_def create_costfn_def)
    next
      case (Inr cr)
      with r costfn_grad_not_Cost [of nn X y lr ef W' s] obtain c g where "cr = CostGrads c g"
        by (cases cr) auto
      with \<open>reshape_vector u (np_matrix v) (dimensions nn (weights s0)) = Inr W'\<close> r Inr
      show ?thesis
        by (simp add: train_objective_def flattened_costfn_def adapter_spec_def create_costfn_def
              split: sum.splits)
    qed
  qed
  show "fst (costfn nn X y lr ef True W s) \<noteq> Inr (Cost c)"
    by (simp add: costfn_fst costfn_body_grad_not_Cost)
qed

theorem flattened_costfn_is_conjugate_witness:
  "adapter_spec (\<lambda>v. reshape_vector ex_util (np_matrix v)) (unrolled ex_util)
       (costfn (ex_nnet 3) ex_X ex_y 1 squared_error True)
       (dimensions (ex_nnet 3) (weights ex_s0)) [1, 2, 3, 4] ex_s0
     = (Inr (Fin (309 / 2), [68, 342, 17, 191]), ex_s0\<lparr>weights := ex_W\<rparr>)"
  using flattened_costfn_is_conjugate
          [of "ex_nnet 3" ex_X ex_y 1 squared_error ex_util ex_s0 "[1, 2, 3, 4]" ex_s0]
        ex_objective_run
  by simp

section \<open>The restart loop\<close>

lemma float_lt_irrefl [simp]: "\<not> float_lt a a"
  by (cases a) simp_all

lemma float_lt_trans: "float_lt a b \<Longrightarrow> float_lt b c \<Longrightarrow> float_lt a c"
  by (cases a; cases b; cases c) simp_all

lemma float_le_lt_trans: "float_le a b \<Longrightarrow> float_lt b c \<Longrightarrow> float_lt a c"
  by (cases a; cases b; cases c) simp_all

lemma float_lt_PInf: "float_lt a b \<Longrightarrow> float_lt a PInf"
  by (cases a; cases b) simp_all

lemma float_lt_le: "float_lt a b \<Longrightarrow> float_le a b"
  by (cases a; cases b) simp_all

lemma train_loop_observed:
  "train_loop nn u mini f n bm s = (Inr bm', s') \<Longrightarrow>
     bm' = foldl train_step bm (minimizer_results nn u mini f n s)
     \<and> length (minimizer_results nn u mini f n s) = n
     \<and> s' = last (s # restart_states nn u mini f n s)"
proof (induction n arbitrary: bm s)
  case 0
  then show ?case by simp
next
  case (Suc n)
  let ?s1 = "resetWeights nn s"
  from Suc.prems obtain iw where iw: "unrolled u (weights ?s1) = Inr iw"
    by (cases "unrolled u (weights ?s1)") (simp_all add: Let_def)
  obtain res s2 where m: "mini f iw ?s1 = (res, s2)"
    by (cases "mini f iw ?s1")
  with Suc.prems iw obtain r where r: "res = Inr r"
    by (cases res) (simp_all add: Let_def)
  from Suc.prems iw m r have "train_loop nn u mini f n (train_step bm r) s2 = (Inr bm', s')"
    by (simp add: Let_def)
  from Suc.IH [OF this] iw m r show ?case
    by (simp add: Let_def)
qed

lemma is_best_step: 
  assumes "is_best seen bm"
  shows "is_best (seen @ [r]) (train_step bm r)"
proof (cases bm)
  case (Pair best me)
  show ?thesis
  proof (cases "success r \<and> float_lt (res_fun r) me")
    case True
    have pre: "\<forall>x\<in>set seen. success x \<longrightarrow> \<not> float_le (res_fun x) (res_fun r)"
    proof (intro ballI impI notI)
      fix x assume x: "x \<in> set seen" "success x" "float_le (res_fun x) (res_fun r)"
      then have lt: "float_lt (res_fun x) me"
        using True float_le_lt_trans by blast
      show False
      proof (cases best)
        case None
        with assms Pair x lt show False
          by (auto simp: is_best_def)
      next
        case (Some b)
        with assms Pair obtain pre post where
          d: "seen = pre @ b # post" "me = res_fun b"
             "\<forall>x\<in>set pre. success x \<longrightarrow> \<not> float_le (res_fun x) (res_fun b)"
             "\<forall>x\<in>set post. success x \<longrightarrow> \<not> float_lt (res_fun x) (res_fun b)"
          by (auto simp: is_best_def)
        with x lt show False
          using float_lt_le by auto
      qed
    qed
    have step: "train_step bm r = (Some r, res_fun r)"
      using True Pair by simp
    have inf: "float_lt (res_fun r) PInf"
      using True float_lt_PInf by blast
    have "\<exists>pre post. seen @ [r] = pre @ r # post
            \<and> (\<forall>x\<in>set pre. success x \<longrightarrow> \<not> float_le (res_fun x) (res_fun r))
            \<and> (\<forall>x\<in>set post. success x \<longrightarrow> \<not> float_lt (res_fun x) (res_fun r))"
      using pre by (intro exI [of _ seen] exI [of _ "[]"]) simp
    with True inf show ?thesis
      unfolding step is_best_def by simp
  next
    case False
    show ?thesis
    proof (cases best)
      case None
      with assms Pair False show ?thesis
        by (auto simp: is_best_def)
    next
      case (Some b)
      with assms Pair obtain pre post where
          d: "seen = pre @ b # post" "me = res_fun b" "success b" "float_lt (res_fun b) PInf"
             "\<forall>x\<in>set pre. success x \<longrightarrow> \<not> float_le (res_fun x) (res_fun b)"
             "\<forall>x\<in>set post. success x \<longrightarrow> \<not> float_lt (res_fun x) (res_fun b)"
          by (auto simp: is_best_def)
      have "seen @ [r] = pre @ b # (post @ [r])" using d by simp
      moreover have "\<forall>x\<in>set (post @ [r]). success x \<longrightarrow> \<not> float_lt (res_fun x) (res_fun b)"
        using d False by auto
      ultimately have "\<exists>pre post'. seen @ [r] = pre @ b # post'
            \<and> (\<forall>x\<in>set pre. success x \<longrightarrow> \<not> float_le (res_fun x) (res_fun b))
            \<and> (\<forall>x\<in>set post'. success x \<longrightarrow> \<not> float_lt (res_fun x) (res_fun b))"
        using d(5) by blast
      moreover have "train_step bm r = (Some b, res_fun b)"
        using Pair Some False d(2) by auto
      ultimately show ?thesis
        using d(3,4) unfolding is_best_def by simp
    qed
  qed
qed

lemma is_best_foldl:
  "is_best seen bm \<Longrightarrow> is_best (seen @ rs) (foldl train_step bm rs)"
proof (induction rs arbitrary: seen bm)
  case Nil
  then show ?case by simp
next
  case (Cons r rs)
  from Cons.IH [OF is_best_step [OF Cons.prems, of r]] show ?case by simp
qed

lemma is_best_init: "is_best [] (None, PInf)"
  by (simp add: is_best_def)


lemma is_best_weaken:
  "is_best rs (best, me) \<Longrightarrow>
     (best = None \<and> me = PInf) \<or> (\<exists>r\<in>set rs. best = Some r \<and> success r \<and> me = res_fun r)"
  by (cases best) (auto simp: is_best_def)

lemma train_loop_add:
  "train_loop nn u mini f (k + j) bm s =
     (case train_loop nn u mini f k bm s of
        (Inl e, s') \<Rightarrow> (Inl e, s')
      | (Inr bm', s') \<Rightarrow> train_loop nn u mini f j bm' s')"
proof (induction k arbitrary: bm s)
  case 0
  then show ?case by simp
next
  case (Suc k)
  show ?case
    by (simp add: Let_def Suc.IH split: sum.splits prod.splits)
qed

lemma train_unfold:
  "train nn X y lr ef mini iterations u s =
     (case train_loop nn u mini (train_objective nn X y lr ef u s) (nat iterations) (None, PInf) s of
        (Inl e, s') \<Rightarrow> (Inl e, s')
      | (Inr (best, me), s') \<Rightarrow>
          (case best of
             None \<Rightarrow> (Inr None, s')
           | Some r \<Rightarrow>
               (case reshape_vector u (np_matrix (res_x r)) (dimensions nn (weights s)) of
                  Inl e \<Rightarrow> (Inl e, s')
                | Inr mw \<Rightarrow> (Inr (Some r), s'\<lparr>weights := mw\<rparr>))))"
  by (simp add: train_def train_objective_def Let_def)

lemma train_returns:
  assumes "train nn X y lr ef mini iterations u s = (Inr ret, s')"
  shows "\<exists>me sl. train_loop nn u mini (train_objective nn X y lr ef u s) (nat iterations)
                    (None, PInf) s = (Inr (ret, me), sl)
           \<and> (case ret of
                 None \<Rightarrow> s' = sl
               | Some r \<Rightarrow> \<exists>mw. reshape_vector u (np_matrix (res_x r)) (dimensions nn (weights s))
                                   = Inr mw \<and> s' = sl\<lparr>weights := mw\<rparr>)"
  using assms unfolding train_unfold
  by (auto split: prod.splits sum.splits option.splits)

lemma train_is_best:
  assumes "train nn X y lr ef mini iterations u s = (Inr ret, s')"
  shows "\<exists>me. is_best (train_results nn X y lr ef mini iterations u s) (ret, me)"
    and "length (train_results nn X y lr ef mini iterations u s) = nat iterations"
proof -
  from train_returns [OF assms] obtain me sl where
    l: "train_loop nn u mini (train_objective nn X y lr ef u s) (nat iterations) (None, PInf) s
          = (Inr (ret, me), sl)"
    by blast
  from train_loop_observed [OF l]
  have f: "(ret, me) = foldl train_step (None, PInf) (train_results nn X y lr ef mini iterations u s)"
    and n: "length (train_results nn X y lr ef mini iterations u s) = nat iterations"
    by (simp_all add: train_results_def)
  from is_best_foldl [OF is_best_init, of "train_results nn X y lr ef mini iterations u s"]
  have "is_best (train_results nn X y lr ef mini iterations u s) (ret, me)"
    by (simp add: f)
  then show "\<exists>me. is_best (train_results nn X y lr ef mini iterations u s) (ret, me)"
    by blast
  show "length (train_results nn X y lr ef mini iterations u s) = nat iterations"
    by (rule n)
qed

lemma ex_train_run:
  "train (ex_nnet 3) ex_X ex_y 1 squared_error (mock_minimizer [ex_r1, ex_r2, ex_r3, ex_r4]) 4 ex_util ex_s0
    = (Inr (Some ex_r3), \<lparr>weights = [mat [[5, 6]], mat [[7, 8]]], stdout = [], ext = 4\<rparr>)"
  by code_simp

lemma ex_train_results:
  "train_results (ex_nnet 3) ex_X ex_y 1 squared_error (mock_minimizer [ex_r1, ex_r2, ex_r3, ex_r4]) 4 ex_util ex_s0
    = [ex_r1, ex_r2, ex_r3, ex_r4]"
  by code_simp

lemma ex_train_states:
  "train_states (ex_nnet 3) ex_X ex_y 1 squared_error (mock_minimizer [ex_r1, ex_r2, ex_r3, ex_r4]) 4 ex_util ex_s0
    = [ex_s0\<lparr>ext := 1\<rparr>, ex_s0\<lparr>ext := 2\<rparr>, ex_s0\<lparr>ext := 3\<rparr>, ex_s0\<lparr>ext := 4\<rparr>]"
  by code_simp

lemma ex_train_inf:
  "train (ex_nnet 3) ex_X ex_y 1 squared_error (mock_minimizer [ex_rinf]) 1 ex_util ex_s0
    = (Inr None, \<lparr>weights = [mat [[0, 0]], mat [[0, 0]]], stdout = [], ext = 1\<rparr>)"
  by code_simp

lemma ex_train_inf_results:
  "train_results (ex_nnet 3) ex_X ex_y 1 squared_error (mock_minimizer [ex_rinf]) 1 ex_util ex_s0
    = [ex_rinf]"
  by code_simp


lemma ex_reshape_r3:
  "reshape_vector ex_util (np_matrix (res_x ex_r3)) (dimensions (ex_nnet 3) (weights ex_s0))
     = Inr [mat [[5, 6]], mat [[7, 8]]]"
  by code_simp

lemma ex_reshape_rinf:
  "reshape_vector ex_util (np_matrix (res_x ex_rinf)) (dimensions (ex_nnet 3) (weights ex_s0))
     = Inr [mat [[1, 2]], mat [[3, 4]]]"
  by code_simp

lemma ex_loop_two:
  "train_loop (ex_nnet 3) ex_util (mock_minimizer [ex_r1, ex_r2, ex_r3, ex_r4])
       (train_objective (ex_nnet 3) ex_X ex_y 1 squared_error ex_util ex_s0) 2 (None, PInf) ex_s0
     = (Inr (Some ex_r1, Fin 3), ex_s0\<lparr>ext := 2\<rparr>)"
  by code_simp

text \<open>
  Claim C4, as stated, at a run of one restart whose result has \<open>success\<close> true and the
  cost \<open>float('infinity')\<close>: a result with \<open>success\<close> true exists, it is the one of
  least cost among them, and \<open>train\<close> returns \<open>None\<close>, since \<open>inf < inf\<close> is false.
\<close>

theorem train_skips_infinite_cost:
  "train_results (ex_nnet 3) ex_X ex_y 1 squared_error (mock_minimizer [ex_rinf]) 1 ex_util ex_s0
     = [ex_rinf]
   \<and> success ex_rinf
   \<and> fst (train (ex_nnet 3) ex_X ex_y 1 squared_error (mock_minimizer [ex_rinf]) 1 ex_util ex_s0)
       = Inr None"
  by (simp add: ex_train_inf ex_train_inf_results) (simp add: ex_rinf_def)

text \<open>
  Claim C4, amended. When \<open>train\<close> returns, the minimizer has returned one result per
  restart. \<open>train\<close> returns \<open>None\<close> exactly when no result has \<open>success\<close> true and a
  cost strictly below \<open>float('infinity')\<close>. Otherwise it returns a result \<open>r\<close> of the
  run with \<open>success\<close> true such that no successful result has a strictly smaller cost, and
  no successful result before \<open>r\<close> has a cost as small: on ties the first one seen wins.
\<close>

theorem train_returns_first_minimum:
  assumes "train nn X y lr ef mini iterations u s = (Inr ret, s')"
  shows "length (train_results nn X y lr ef mini iterations u s) = nat iterations
     \<and> (ret = None \<longleftrightarrow>
          (\<forall>x\<in>set (train_results nn X y lr ef mini iterations u s).
             success x \<longrightarrow> \<not> float_lt (res_fun x) PInf))
     \<and> (\<forall>r. ret = Some r \<longrightarrow>
          success r \<and> float_lt (res_fun r) PInf
          \<and> (\<exists>pre post. train_results nn X y lr ef mini iterations u s = pre @ r # post
                \<and> (\<forall>x\<in>set pre. success x \<longrightarrow> \<not> float_le (res_fun x) (res_fun r))
                \<and> (\<forall>x\<in>set post. success x \<longrightarrow> \<not> float_lt (res_fun x) (res_fun r))))"
proof -
  let ?rs = "train_results nn X y lr ef mini iterations u s"
  from train_is_best [OF assms] obtain me where b: "is_best ?rs (ret, me)" and n: "length ?rs = nat iterations"
    by blast
  show ?thesis
  proof (cases ret)
    case None
    with b n show ?thesis by (simp add: is_best_def)
  next
    case (Some r)
    with b have r: "success r" "float_lt (res_fun r) PInf"
      and d: "\<exists>pre post. ?rs = pre @ r # post
                \<and> (\<forall>x\<in>set pre. success x \<longrightarrow> \<not> float_le (res_fun x) (res_fun r))
                \<and> (\<forall>x\<in>set post. success x \<longrightarrow> \<not> float_lt (res_fun x) (res_fun r))"
      by (simp_all add: is_best_def)
    from d have "r \<in> set ?rs" by auto
    with r have "\<not> (\<forall>x\<in>set ?rs. success x \<longrightarrow> \<not> float_lt (res_fun x) PInf)"
      by blast
    with Some r d n show ?thesis by simp
  qed
qed

theorem train_returns_first_minimum_witness:
  "fst (train (ex_nnet 3) ex_X ex_y 1 squared_error
          (mock_minimizer [ex_r1, ex_r2, ex_r3, ex_r4]) 4 ex_util ex_s0) = Inr (Some ex_r3)
   \<and> train_results (ex_nnet 3) ex_X ex_y 1 squared_error
          (mock_minimizer [ex_r1, ex_r2, ex_r3, ex_r4]) 4 ex_util ex_s0 = [ex_r1, ex_r2, ex_r3, ex_r4]
   \<and> success ex_r3 \<and> float_lt (res_fun ex_r3) PInf"
  using train_returns_first_minimum [OF ex_train_run] ex_train_run ex_train_results
  by simp

text \<open>
  Claim C5, as stated, at the same run: a restart produced a result with \<open>success\<close> true
  (of cost \<open>float('infinity')\<close>), and after \<open>train\<close> the weights of the network are the
  ones the restart left, not the reshaped vector of that result.
\<close>

theorem train_leaves_weights_on_infinite_cost:
  "train_results (ex_nnet 3) ex_X ex_y 1 squared_error (mock_minimizer [ex_rinf]) 1 ex_util ex_s0
     = [ex_rinf]
   \<and> success ex_rinf
   \<and> reshape_vector ex_util (np_matrix (res_x ex_rinf)) (dimensions (ex_nnet 3) (weights ex_s0))
       = Inr [mat [[1, 2]], mat [[3, 4]]]
   \<and> weights (snd (train (ex_nnet 3) ex_X ex_y 1 squared_error (mock_minimizer [ex_rinf]) 1
                      ex_util ex_s0)) = [mat [[0, 0]], mat [[0, 0]]]
   \<and> [mat [[0, 0]], mat [[0, 0]]] \<noteq> [mat [[1, 2]], mat [[3, 4]]]"
proof -
  have "[mat [[0, 0]], mat [[0, 0]]] \<noteq> [mat [[1, 2]], mat [[3, 4]]]"
    by (simp add: mat_def)
  then show ?thesis
    by (simp add: ex_train_inf ex_train_inf_results ex_reshape_rinf) (simp add: ex_rinf_def)
qed

text \<open>
  Claim C5, amended. When \<open>train\<close> returns a result \<open>r\<close>, which it does exactly when some
  restart produced a result with \<open>success\<close> true and a cost strictly below
  \<open>float('infinity')\<close>, the final state is the state the last restart left with the weights
  replaced by \<open>res_x r\<close> reshaped with the dimensions read in the state \<open>train\<close> started
  in. When \<open>train\<close> returns \<open>None\<close>, the final state is the state the last restart left
  (the starting state when there was no restart): nothing is installed.
\<close>

theorem train_commits_best:
  assumes "train nn X y lr ef mini iterations u s = (Inr ret, s')"
  shows "(\<forall>r. ret = Some r \<longrightarrow>
            (\<exists>mw. reshape_vector u (np_matrix (res_x r)) (dimensions nn (weights s)) = Inr mw
                  \<and> s' = (last (s # train_states nn X y lr ef mini iterations u s))\<lparr>weights := mw\<rparr>))
     \<and> (ret = None \<longrightarrow> s' = last (s # train_states nn X y lr ef mini iterations u s))
     \<and> (ret \<noteq> None \<longleftrightarrow>
          (\<exists>x\<in>set (train_results nn X y lr ef mini iterations u s).
             success x \<and> float_lt (res_fun x) PInf))"
proof -
  let ?rs = "train_results nn X y lr ef mini iterations u s"
  from train_returns [OF assms] obtain me sl where
    l: "train_loop nn u mini (train_objective nn X y lr ef u s) (nat iterations) (None, PInf) s
          = (Inr (ret, me), sl)"
    and c: "case ret of
              None \<Rightarrow> s' = sl
            | Some r \<Rightarrow> \<exists>mw. reshape_vector u (np_matrix (res_x r)) (dimensions nn (weights s))
                                = Inr mw \<and> s' = sl\<lparr>weights := mw\<rparr>"
    by blast
  from train_loop_observed [OF l]
  have sl: "sl = last (s # train_states nn X y lr ef mini iterations u s)"
    by (simp add: train_states_def)
  from train_is_best(1) [OF assms] obtain me' where b: "is_best ?rs (ret, me')"
    by blast
  have iff: "ret \<noteq> None \<longleftrightarrow> (\<exists>x\<in>set ?rs. success x \<and> float_lt (res_fun x) PInf)"
  proof (cases ret)
    case None
    with b show ?thesis by (auto simp: is_best_def)
  next
    case (Some r)
    with b have "success r" "float_lt (res_fun r) PInf" "r \<in> set ?rs"
      by (auto simp: is_best_def)
    with Some show ?thesis by blast
  qed
  from c sl iff show ?thesis
    by (cases ret) simp_all
qed

theorem train_commits_best_witness:
  "train (ex_nnet 3) ex_X ex_y 1 squared_error
          (mock_minimizer [ex_r1, ex_r2, ex_r3, ex_r4]) 4 ex_util ex_s0
     = (Inr (Some ex_r3), ex_s0\<lparr>ext := 4, weights := [mat [[5, 6]], mat [[7, 8]]]\<rparr>)
   \<and> reshape_vector ex_util (np_matrix (res_x ex_r3)) (dimensions (ex_nnet 3) (weights ex_s0))
       = Inr [mat [[5, 6]], mat [[7, 8]]]"
  using train_commits_best [OF ex_train_run] ex_train_run ex_train_states ex_reshape_r3
  by (simp add: ex_s0_def)

text \<open>
  Claim C10. After any number \<open>k\<close> of iterations of the restart loop, started with
  \<open>(None, float('infinity'))\<close>: either \<open>best_result\<close> is \<open>None\<close> and \<open>min_error\<close> is
  \<open>float('infinity')\<close>, or \<open>best_result\<close> is one of the results the minimizer returned
  in these \<open>k\<close> iterations, its \<open>success\<close> is true and \<open>min_error\<close> is its \<open>fun\<close>.
  The state after \<open>k\<close> iterations is a point of every longer run: a loop of \<open>n \<ge> k\<close>
  iterations is the loop of \<open>k\<close> iterations followed by the remaining ones. What \<open>train\<close>
  returns is \<open>None\<close> or one of the results the minimizer returned, as it was returned,
  with \<open>success\<close> true.
\<close>

theorem train_loop_invariant:
  "(train_loop nn u mini f k (None, PInf) s = (Inr (best, me), sk) \<longrightarrow>
      (best = None \<and> me = PInf)
      \<or> (\<exists>r\<in>set (minimizer_results nn u mini f k s). best = Some r \<and> success r \<and> me = res_fun r))
   \<and> (k \<le> n \<longrightarrow>
        train_loop nn u mini f n (None, PInf) s =
          (case train_loop nn u mini f k (None, PInf) s of
             (Inl e, s') \<Rightarrow> (Inl e, s')
           | (Inr bm, s') \<Rightarrow> train_loop nn u mini f (n - k) bm s'))
   \<and> (train nn X y lr ef mini iterations u s = (Inr ret, s') \<longrightarrow>
        ret = None
        \<or> (\<exists>r\<in>set (train_results nn X y lr ef mini iterations u s). ret = Some r \<and> success r))"
proof (intro conjI impI)
  assume l: "train_loop nn u mini f k (None, PInf) s = (Inr (best, me), sk)"
  from train_loop_observed [OF l]
  have "(best, me) = foldl train_step (None, PInf) (minimizer_results nn u mini f k s)"
    by simp
  with is_best_foldl [OF is_best_init, of "minimizer_results nn u mini f k s"]
  have "is_best (minimizer_results nn u mini f k s) (best, me)"
    by simp
  then show "(best = None \<and> me = PInf)
      \<or> (\<exists>r\<in>set (minimizer_results nn u mini f k s). best = Some r \<and> success r \<and> me = res_fun r)"
    by (rule is_best_weaken)
next
  assume "k \<le> n"
  then have "n = k + (n - k)" by simp
  then show "train_loop nn u mini f n (None, PInf) s =
          (case train_loop nn u mini f k (None, PInf) s of
             (Inl e, s') \<Rightarrow> (Inl e, s')
           | (Inr bm, s') \<Rightarrow> train_loop nn u mini f (n - k) bm s')"
    using train_loop_add [of nn u mini f k "n - k" "(None, PInf)" s] by simp
next
  assume t: "train nn X y lr ef mini iterations u s = (Inr ret, s')"
  from train_is_best(1) [OF t] obtain me' where
    "is_best (train_results nn X y lr ef mini iterations u s) (ret, me')"
    by blast
  from is_best_weaken [OF this]
  show "ret = None
        \<or> (\<exists>r\<in>set (train_results nn X y lr ef mini iterations u s). ret = Some r \<and> success r)"
    by blast
qed


theorem train_loop_invariant_witness:
  "train_loop (ex_nnet 3) ex_util (mock_minimizer [ex_r1, ex_r2, ex_r3, ex_r4])
       (train_objective (ex_nnet 3) ex_X ex_y 1 squared_error ex_util ex_s0) 2 (None, PInf) ex_s0
     = (Inr (Some ex_r1, Fin 3), ex_s0\<lparr>ext := 2\<rparr>)
   \<and> ex_r1 \<in> set (minimizer_results (ex_nnet 3) ex_util (mock_minimizer [ex_r1, ex_r2, ex_r3, ex_r4])
                     (train_objective (ex_nnet 3) ex_X ex_y 1 squared_error ex_util ex_s0) 2 ex_s0)
   \<and> success ex_r1 \<and> res_fun ex_r1 = Fin 3
   \<and> train_loop (ex_nnet 3) ex_util (mock_minimizer [ex_r1, ex_r2, ex_r3, ex_r4])
       (train_objective (ex_nnet 3) ex_X ex_y 1 squared_error ex_util ex_s0) 4 (None, PInf) ex_s0
     = train_loop (ex_nnet 3) ex_util (mock_minimizer [ex_r1, ex_r2, ex_r3, ex_r4])
       (train_objective (ex_nnet 3) ex_X ex_y 1 squared_error ex_util ex_s0) 2 (Some ex_r1, Fin 3)
       (ex_s0\<lparr>ext := 2\<rparr>)
   \<and> ex_r3 \<in> set (train_results (ex_nnet 3) ex_X ex_y 1 squared_error
                     (mock_minimizer [ex_r1, ex_r2, ex_r3, ex_r4]) 4 ex_util ex_s0)
   \<and> success ex_r3"
proof -
  have k: "(2::nat) \<le> 4"
    by simp
  from train_loop_invariant
         [of "ex_nnet 3" ex_util "mock_minimizer [ex_r1, ex_r2, ex_r3, ex_r4]"
             "train_objective (ex_nnet 3) ex_X ex_y 1 squared_error ex_util ex_s0" 2 ex_s0
             "Some ex_r1" "Fin 3" "ex_s0\<lparr>ext := 2\<rparr>" 4 ex_X ex_y 1 squared_error 4
             "Some ex_r3" "\<lparr>weights = [mat [[5, 6]], mat [[7, 8]]], stdout = [], ext = 4\<rparr>"]
       ex_loop_two ex_train_run k
  show ?thesis
    by simp
qed

section \<open>Backpropagation\<close>

lemma nrows_mk_matrix [simp]: "nrows (mk_matrix r c f) = r"
  by (simp add: mk_matrix_def)

lemma ncols_mk_matrix [simp]: "ncols (mk_matrix r c f) = c"
  by (simp add: mk_matrix_def)

lemma entry_mk_matrix [simp]: "i < r \<Longrightarrow> j < c \<Longrightarrow> entry (mk_matrix r c f) i j = f i j"
  by (simp add: mk_matrix_def entry_def)

lemma py_index_Inr_iff: "py_index xs i = Inr v \<longleftrightarrow> i < length xs \<and> xs ! i = v"
  by (simp add: py_index_def)

lemma py_last_Inr_iff: "py_last xs = Inr v \<longleftrightarrow> xs \<noteq> [] \<and> last xs = v"
  by (simp add: py_last_def)



lemma matmul_shape: "matmul A B = Inr U \<Longrightarrow> nrows U = nrows A \<and> ncols U = ncols B"
  by (auto simp: matmul_def split: if_splits)

lemma np_iadd_cols_Inr:
  assumes "np_iadd_cols b U R = Inr G"
  shows "nrows G = nrows U" and "ncols G = ncols U"
    and "(nrows R = nrows U \<or> nrows R = 1) \<and> (ncols R = ncols U - b \<or> ncols R = 1)"
    and "r < nrows U \<Longrightarrow> j < ncols U \<Longrightarrow>
           entry G r j = (if j < b then entry U r j
                          else entry U r j + entry R (bidx (nrows R) r) (bidx (ncols R) (j - b)))"
  using assms by (auto simp: np_iadd_cols_def split: if_splits)

lemma layer_grad_bias_column:
  assumes "np_iadd_cols b U R = Inr G" and "r < nrows U" and "j < ncols U" and "j < b"
  shows "entry G r j = entry U r j"
  using np_iadd_cols_Inr(4) [OF assms(1-3)] assms(4) by simp


lemma xrange_down_nth:
  "k < n - 2 \<Longrightarrow> xrange_down n ! k = n - 2 - k"
  by (simp add: xrange_down_def rev_nth)

lemma xrange_down_length: "length (xrange_down n) = n - 2"
  by (simp add: xrange_down_def)

lemma delta_loop_suffix:
  "delta_loop nn W z b is d = Inr d' \<Longrightarrow> d \<noteq> [] \<Longrightarrow>
     \<exists>ds. d' = ds @ d \<and> length ds = length is
       \<and> (\<forall>k<length is. is_hidden_delta nn W z b (is ! k) (d' ! (length is - k)) (d' ! (length is - 1 - k)))"
proof (induction "is" arbitrary: d)
  case Nil
  then show ?case by simp
next
  case (Cons i "is")
  from Cons.prems obtain g wd di where
    i: "i < length (layers nn)" "i < length W" "i < length z"
    and g: "act_grad (activationfn (layers nn ! i)) (z ! i) = Inr g"
    and wd: "matmul (transpose_m (slice_cols b (W ! i))) (d ! 0) = Inr wd"
    and di: "np_multiply g wd = Inr di"
    and rest: "delta_loop nn W z b is (di # d) = Inr d'"
    by (auto simp: ebind_Inr_iff py_index_Inr_iff)
  from Cons.IH [OF rest] obtain ds where
    ds: "d' = ds @ di # d" "length ds = length is"
    and steps: "\<forall>k<length is. is_hidden_delta nn W z b (is ! k) (d' ! (length is - k))
                                 (d' ! (length is - 1 - k))"
    by auto
  have here: "is_hidden_delta nn W z b i (d' ! Suc (length is)) (d' ! length is)"
  proof -
    have "d' ! length is = di"
      using ds by (simp add: nth_append)
    moreover have "d' ! Suc (length is) = d ! 0"
      using ds Cons.prems(2) by (simp add: nth_append)
    ultimately show ?thesis
      using i g wd di by (auto simp: is_hidden_delta_def)
  qed
  have "\<forall>k<length (i # is). is_hidden_delta nn W z b ((i # is) ! k)
           (d' ! (length (i # is) - k)) (d' ! (length (i # is) - 1 - k))"
  proof (intro allI impI)
    fix k assume k: "k < length (i # is)"
    show "is_hidden_delta nn W z b ((i # is) ! k)
           (d' ! (length (i # is) - k)) (d' ! (length (i # is) - 1 - k))"
    proof (cases k)
      case 0
      with here show ?thesis by simp
    next
      case (Suc k')
      with k have "k' < length is" by simp
      with steps have "is_hidden_delta nn W z b (is ! k') (d' ! (length is - k'))
                                 (d' ! (length is - 1 - k'))"
        by blast
      with Suc show ?thesis by simp
    qed
  qed
  moreover have "d' = (ds @ [di]) @ d" "length (ds @ [di]) = length (i # is)"
    using ds by simp_all
  ultimately show ?case by blast
qed

lemma deltas_spec:
  assumes "deltas nn ef W z h y b = Inr d" and "2 \<le> length (layers nn)"
  shows "length d = length (layers nn) \<and> d ! 0 = None
     \<and> (\<exists>sd. seed_delta nn ef z h y = Inr sd \<and> d ! (length (layers nn) - 1) = Some sd)
     \<and> (\<forall>i. 1 \<le> i \<and> i < length (layers nn) - 1 \<longrightarrow>
          (\<exists>dn di. d ! (i + 1) = Some dn \<and> d ! i = Some di \<and> is_hidden_delta nn W z b i dn di))"
proof -
  let ?L = "length (layers nn)"
  from assms(1) obtain sd d' where
    sd: "seed_delta nn ef z h y = Inr sd"
    and loop: "delta_loop nn W z b (xrange_down ?L) [sd] = Inr d'"
    and d: "d = None # map Some d'"
    by (auto simp: deltas_def ebind_Inr_iff)
  from delta_loop_suffix [OF loop] obtain ds where
    ds: "d' = ds @ [sd]" "length ds = ?L - 2"
    and steps: "\<forall>k<?L - 2. is_hidden_delta nn W z b (xrange_down ?L ! k) (d' ! (?L - 2 - k))
                                 (d' ! (?L - 2 - 1 - k))"
    by (auto simp: xrange_down_length)
  have len: "length d' = ?L - 1"
    using ds assms(2) by simp
  have "d ! (?L - 1) = Some sd"
  proof -
    have "?L - 1 = Suc (?L - 2)" "?L - 2 < length d'"
      using len assms(2) by simp_all
    then have "d ! (?L - 1) = Some (d' ! (?L - 2))"
      using d by simp
    also have "d' ! (?L - 2) = sd"
      using ds by (simp add: nth_append)
    finally show ?thesis .
  qed
  moreover have "\<forall>i. 1 \<le> i \<and> i < ?L - 1 \<longrightarrow>
          (\<exists>dn di. d ! (i + 1) = Some dn \<and> d ! i = Some di \<and> is_hidden_delta nn W z b i dn di)"
  proof (intro allI impI)
    fix i assume i: "1 \<le> i \<and> i < ?L - 1"
    define k where "k = ?L - 2 - i"
    have k: "k < ?L - 2" "?L - 2 - k = i" "?L - 2 - 1 - k = i - 1"
      using i unfolding k_def by arith+
    from steps k have "is_hidden_delta nn W z b (xrange_down ?L ! k) (d' ! i) (d' ! (i - 1))"
      by (metis)
    then have h: "is_hidden_delta nn W z b i (d' ! i) (d' ! (i - 1))"
      using xrange_down_nth [OF k(1)] k by simp
    have "d ! (i + 1) = Some (d' ! i)"
      using d len i by simp
    moreover have "d ! i = Some (d' ! (i - 1))"
      using d len i by (cases i) simp_all
    ultimately show "\<exists>dn di. d ! (i + 1) = Some dn \<and> d ! i = Some di \<and> is_hidden_delta nn W z b i dn di"
      using h by blast
  qed
  ultimately show ?thesis
    using d len sd assms(2) by simp
qed


lemma costfn_with_grad:
  assumes "costfn nn X y lr ef True W s = (Inr res, s')"
    and "calculateCost nn W X y ef lr = Inr (z, a, c)"
  shows "\<exists>d grads. a \<noteq> []
           \<and> deltas nn ef W z (last a) y (if bias nn then 1 else 0) = Inr d
           \<and> grad_loop (real (ncols X)) lr (if bias nn then 1 else 0) W d a [0 ..< length W] []
               = Inr grads
           \<and> res = CostGrads c grads"
proof -
  from assms(1) have "costfn_body nn X y lr ef True W (s\<lparr>weights := W\<rparr>) = Inr res"
    using costfn_fst [of nn X y lr ef True W s] by simp
  with assms(2) show ?thesis
    by (auto simp: costfn_body_def Let_def ebind_Inr_iff py_last_Inr_iff)
qed

lemma np_multiply_entries: "np_multiply A B = Inr P \<Longrightarrow> is_elementwise_product A B P"
  unfolding np_multiply_def broadcast_dim_def bidx_def is_elementwise_product_def
  by (auto split: if_splits)

lemma matmul_entry:
  assumes "matmul A B = Inr U"
  shows "ncols A = nrows B"
    and "r < nrows A \<Longrightarrow> j < ncols B \<Longrightarrow>
           entry U r j = sum_list (map (\<lambda>k. entry A r k * entry B k j) [0 ..< ncols A])"
  using assms by (auto simp: matmul_def split: if_splits)

lemma transposed_product_entries:
  assumes "matmul (transpose_m (slice_cols b Wi)) dn = Inr wd"
  shows "nrows Wi = nrows dn" and "nrows wd = ncols Wi - b" and "ncols wd = ncols dn"
    and "r < ncols Wi - b \<Longrightarrow> j < ncols dn \<Longrightarrow>
           entry wd r j = sum_list (map (\<lambda>k. entry Wi k (r + b) * entry dn k j) [0 ..< nrows Wi])"
proof -
  show "nrows Wi = nrows dn"
    using matmul_entry(1) [OF assms] by (simp add: transpose_m_def slice_cols_def)
  show "nrows wd = ncols Wi - b" "ncols wd = ncols dn"
    using matmul_shape [OF assms] by (simp_all add: transpose_m_def slice_cols_def)
  assume r: "r < ncols Wi - b" and j: "j < ncols dn"
  have "entry wd r j =
          sum_list (map (\<lambda>k. entry (transpose_m (slice_cols b Wi)) r k * entry dn k j)
                        [0 ..< nrows Wi])"
    using matmul_entry(2) [OF assms, of r j] r j by (simp add: transpose_m_def slice_cols_def)
  also have "\<dots> = sum_list (map (\<lambda>k. entry Wi k (r + b) * entry dn k j) [0 ..< nrows Wi])"
    using r by (intro arg_cong [where f = sum_list] map_cong refl)
               (simp add: transpose_m_def slice_cols_def)
  finally show "entry wd r j
      = sum_list (map (\<lambda>k. entry Wi k (r + b) * entry dn k j) [0 ..< nrows Wi])" .
qed



lemma ex2_run:
  "costfn (lin_nnet 2 3) ex2_X ex2_y 1 numpy_squared_error True ex2_W ex_s0 =
     (Inr (CostGrads (Fin (655 / 2)) ex2_grads), ex_s0\<lparr>weights := ex2_W\<rparr>)"
  by code_simp

lemma ex2_calc:
  "calculateCost (lin_nnet 2 3) ex2_W ex2_X ex2_y numpy_squared_error 1
     = Inr (ex2_z, ex2_a, Fin (655 / 2))"
  by code_simp

lemma ex2_deltas:
  "deltas (lin_nnet 2 3) numpy_squared_error ex2_W ex2_z (last ex2_a) ex2_y 1 = Inr ex2_d"
  by code_simp

lemma ex2_layers: "length (layers (lin_nnet 2 3)) = 3" "bias (lin_nnet 2 3)"
  by (simp_all add: lin_nnet_def)

text \<open>
  Claim C2. Let \<open>costfn\<close> be called with the gradient requested and return, on a network
  of \<open>L \<ge> 2\<close> layers whose forward pass gave one pre-activation per layer. Then the
  deque \<open>d\<close> of deltas was computed, it has \<open>L\<close> entries, and: \<open>d[0]\<close> is the filler
  \<open>None\<close>; \<open>d[L-1]\<close> is the elementwise product of the gradient of the last layer's
  activation at \<open>z[L-1]\<close> with the gradient of the error function at \<open>(h, y)\<close>, where
  \<open>h = a[-1]\<close>; and for every \<open>i\<close> from \<open>1\<close> to \<open>L-2\<close>, \<open>d[i]\<close> is the elementwise
  product of the gradient of layer \<open>i\<close>'s activation at \<open>z[i]\<close> with the matrix \<open>wd\<close>,
  the product of the transposed \<open>W[i][:, bias:]\<close> and \<open>d[i+1]\<close>. Both products are given
  entry by entry: an entry of an elementwise product is the product of the operands' entries
  at that place, and the entry \<open>(r, j)\<close> of \<open>wd\<close> is the sum over the rows \<open>k\<close> of
  \<open>W[i]\<close> of \<open>W[i][k, r + bias] * d[i+1][k, j]\<close>, so the bias column of \<open>W[i]\<close> takes
  no part.
\<close>

theorem backpropagation_deltas:
  assumes "costfn nn X y lr ef True W s = (Inr res, s')"
    and "calculateCost nn W X y ef lr = Inr (z, a, c)"
    and "2 \<le> length (layers nn)"
    and "length z = length (layers nn)"
    and "b = (if bias nn then 1 else 0)"
  shows "\<exists>d. deltas nn ef W z (last a) y b = Inr d
     \<and> length d = length (layers nn)
     \<and> d ! 0 = None
     \<and> (\<exists>g eg sd. act_grad (activationfn (layers nn ! (length (layers nn) - 1)))
                      (z ! (length (layers nn) - 1)) = Inr g
            \<and> err_grad ef (last a) y = Inr eg
            \<and> np_multiply g eg = Inr sd
            \<and> is_elementwise_product g eg sd
            \<and> d ! (length (layers nn) - 1) = Some sd)
     \<and> (\<forall>i. 1 \<le> i \<and> i < length (layers nn) - 1 \<longrightarrow>
          (\<exists>g wd dn di. act_grad (activationfn (layers nn ! i)) (z ! i) = Inr g
             \<and> d ! (i + 1) = Some dn
             \<and> matmul (transpose_m (slice_cols b (W ! i))) dn = Inr wd
             \<and> nrows (W ! i) = nrows dn
             \<and> nrows wd = ncols (W ! i) - b
             \<and> ncols wd = ncols dn
             \<and> (\<forall>r<ncols (W ! i) - b. \<forall>j<ncols dn.
                   entry wd r j
                     = sum_list (map (\<lambda>k. entry (W ! i) k (r + b) * entry dn k j)
                                     [0 ..< nrows (W ! i)]))
             \<and> np_multiply g wd = Inr di
             \<and> is_elementwise_product g wd di
             \<and> d ! i = Some di))"
proof -
  let ?L = "length (layers nn)"
  from costfn_with_grad [OF assms(1,2)] assms(5) obtain d where
    d: "deltas nn ef W z (last a) y b = Inr d"
    by auto
  from deltas_spec [OF d assms(3)] obtain sd where
    len: "length d = ?L" "d ! 0 = None"
    and sd: "seed_delta nn ef z (last a) y = Inr sd" "d ! (?L - 1) = Some sd"
    and hid: "\<forall>i. 1 \<le> i \<and> i < ?L - 1 \<longrightarrow>
          (\<exists>dn di. d ! (i + 1) = Some dn \<and> d ! i = Some di \<and> is_hidden_delta nn W z b i dn di)"
    by blast
  have nonempty: "layers nn \<noteq> []" "z \<noteq> []"
    using assms(3,4) by auto
  from sd(1) obtain g eg where
    g: "act_grad (activationfn (last (layers nn))) (last z) = Inr g"
    and eg: "err_grad ef (last a) y = Inr eg"
    and p: "np_multiply g eg = Inr sd"
    by (auto simp: seed_delta_def ebind_Inr_iff py_last_Inr_iff)
  from g have g': "act_grad (activationfn (layers nn ! (?L - 1))) (z ! (?L - 1)) = Inr g"
    using nonempty assms(4) by (simp add: last_conv_nth)
  have seed: "\<exists>g eg sd. act_grad (activationfn (layers nn ! (?L - 1))) (z ! (?L - 1)) = Inr g
            \<and> err_grad ef (last a) y = Inr eg
            \<and> np_multiply g eg = Inr sd
            \<and> is_elementwise_product g eg sd
            \<and> d ! (?L - 1) = Some sd"
    using g' eg p np_multiply_entries [OF p] sd(2) by blast
  have "\<forall>i. 1 \<le> i \<and> i < ?L - 1 \<longrightarrow>
          (\<exists>g wd dn di. act_grad (activationfn (layers nn ! i)) (z ! i) = Inr g
             \<and> d ! (i + 1) = Some dn
             \<and> matmul (transpose_m (slice_cols b (W ! i))) dn = Inr wd
             \<and> nrows (W ! i) = nrows dn
             \<and> nrows wd = ncols (W ! i) - b
             \<and> ncols wd = ncols dn
             \<and> (\<forall>r<ncols (W ! i) - b. \<forall>j<ncols dn.
                   entry wd r j
                     = sum_list (map (\<lambda>k. entry (W ! i) k (r + b) * entry dn k j)
                                     [0 ..< nrows (W ! i)]))
             \<and> np_multiply g wd = Inr di
             \<and> is_elementwise_product g wd di
             \<and> d ! i = Some di)"
  proof (intro allI impI)
    fix i assume "1 \<le> i \<and> i < ?L - 1"
    with hid obtain dn di where
      dn: "d ! (i + 1) = Some dn" and di: "d ! i = Some di"
      and h: "is_hidden_delta nn W z b i dn di"
      by blast
    from h obtain g wd where
      g: "act_grad (activationfn (layers nn ! i)) (z ! i) = Inr g"
      and wd: "matmul (transpose_m (slice_cols b (W ! i))) dn = Inr wd"
      and p: "np_multiply g wd = Inr di"
      unfolding is_hidden_delta_def by blast
    have ent: "\<forall>r<ncols (W ! i) - b. \<forall>j<ncols dn.
                   entry wd r j
                     = sum_list (map (\<lambda>k. entry (W ! i) k (r + b) * entry dn k j)
                                     [0 ..< nrows (W ! i)])"
      using transposed_product_entries(4) [OF wd] by blast
    from g dn wd transposed_product_entries(1-3) [OF wd] ent p np_multiply_entries [OF p] di
    show "\<exists>g wd dn di. act_grad (activationfn (layers nn ! i)) (z ! i) = Inr g
             \<and> d ! (i + 1) = Some dn
             \<and> matmul (transpose_m (slice_cols b (W ! i))) dn = Inr wd
             \<and> nrows (W ! i) = nrows dn
             \<and> nrows wd = ncols (W ! i) - b
             \<and> ncols wd = ncols dn
             \<and> (\<forall>r<ncols (W ! i) - b. \<forall>j<ncols dn.
                   entry wd r j
                     = sum_list (map (\<lambda>k. entry (W ! i) k (r + b) * entry dn k j)
                                     [0 ..< nrows (W ! i)]))
             \<and> np_multiply g wd = Inr di
             \<and> is_elementwise_product g wd di
             \<and> d ! i = Some di"
      by blast
  qed
  with d len seed show ?thesis
    by blast
qed

theorem backpropagation_deltas_witness:
  "costfn (lin_nnet 2 3) ex2_X ex2_y 1 numpy_squared_error True ex2_W ex_s0 =
     (Inr (CostGrads (Fin (655 / 2)) ex2_grads), ex_s0\<lparr>weights := ex2_W\<rparr>)
   \<and> deltas (lin_nnet 2 3) numpy_squared_error ex2_W ex2_z (last ex2_a) ex2_y 1 = Inr ex2_d
   \<and> length ex2_d = length (layers (lin_nnet 2 3))
   \<and> ex2_d ! 0 = None
   \<and> (\<exists>g eg. act_grad (activationfn (layers (lin_nnet 2 3) ! 2)) (ex2_z ! 2) = Inr g
          \<and> err_grad numpy_squared_error (last ex2_a) ex2_y = Inr eg
          \<and> is_elementwise_product g eg (mat [[24, 68]]))
   \<and> (\<exists>g wd. act_grad (activationfn (layers (lin_nnet 2 3) ! 1)) (ex2_z ! 1) = Inr g
          \<and> matmul (transpose_m (slice_cols 1 (ex2_W ! 1))) (mat [[24, 68]]) = Inr wd
          \<and> entry wd 1 1
               = sum_list (map (\<lambda>k. entry (ex2_W ! 1) k (1 + 1) * entry (mat [[24, 68]]) k 1)
                               [0 ..< nrows (ex2_W ! 1)])
          \<and> is_elementwise_product g wd (mat [[48, 136], [96, 272]]))"
proof -
  have L: "2 \<le> length (layers (lin_nnet 2 3))" "length ex2_z = length (layers (lin_nnet 2 3))"
    and b: "(1::nat) = (if bias (lin_nnet 2 3) then 1 else 0)"
    by (simp_all add: ex2_layers ex2_z_def)
  from backpropagation_deltas [OF ex2_run ex2_calc L b] obtain d where
    d: "deltas (lin_nnet 2 3) numpy_squared_error ex2_W ex2_z (last ex2_a) ex2_y 1 = Inr d"
    and len: "length d = length (layers (lin_nnet 2 3))" "d ! 0 = None"
    and seed: "\<exists>g eg sd. act_grad (activationfn (layers (lin_nnet 2 3)
                                ! (length (layers (lin_nnet 2 3)) - 1)))
                      (ex2_z ! (length (layers (lin_nnet 2 3)) - 1)) = Inr g
            \<and> err_grad numpy_squared_error (last ex2_a) ex2_y = Inr eg
            \<and> np_multiply g eg = Inr sd
            \<and> is_elementwise_product g eg sd
            \<and> d ! (length (layers (lin_nnet 2 3)) - 1) = Some sd"
    and hid: "\<forall>i. 1 \<le> i \<and> i < length (layers (lin_nnet 2 3)) - 1 \<longrightarrow>
          (\<exists>g wd dn di. act_grad (activationfn (layers (lin_nnet 2 3) ! i)) (ex2_z ! i) = Inr g
             \<and> d ! (i + 1) = Some dn
             \<and> matmul (transpose_m (slice_cols 1 (ex2_W ! i))) dn = Inr wd
             \<and> nrows (ex2_W ! i) = nrows dn
             \<and> nrows wd = ncols (ex2_W ! i) - 1
             \<and> ncols wd = ncols dn
             \<and> (\<forall>r<ncols (ex2_W ! i) - 1. \<forall>j<ncols dn.
                   entry wd r j
                     = sum_list (map (\<lambda>k. entry (ex2_W ! i) k (r + 1) * entry dn k j)
                                     [0 ..< nrows (ex2_W ! i)]))
             \<and> np_multiply g wd = Inr di
             \<and> is_elementwise_product g wd di
             \<and> d ! i = Some di)"
    by blast
  from d ex2_deltas have eq: "d = ex2_d"
    by simp
  have d2: "ex2_d ! (length (layers (lin_nnet 2 3)) - 1) = Some (mat [[24, 68]])"
    and d2': "ex2_d ! (1 + 1) = Some (mat [[24, 68]])"
    and d1: "ex2_d ! 1 = Some (mat [[48, 136], [96, 272]])"
    and two: "length (layers (lin_nnet 2 3)) - 1 = 2"
    by (simp_all add: ex2_layers ex2_d_def)
  from seed [unfolded eq two] obtain g0 eg sd where
    g0: "act_grad (activationfn (layers (lin_nnet 2 3) ! 2)) (ex2_z ! 2) = Inr g0"
    and eg: "err_grad numpy_squared_error (last ex2_a) ex2_y = Inr eg"
    and p0: "is_elementwise_product g0 eg sd"
    and sd: "ex2_d ! 2 = Some sd"
    by blast
  from sd have "sd = mat [[24, 68]]"
    by (simp add: ex2_d_def)
  with g0 eg p0 have s: "\<exists>g eg. act_grad (activationfn (layers (lin_nnet 2 3) ! 2)) (ex2_z ! 2) = Inr g
          \<and> err_grad numpy_squared_error (last ex2_a) ex2_y = Inr eg
          \<and> is_elementwise_product g eg (mat [[24, 68]])"
    by blast
  have "(1::nat) \<le> 1 \<and> 1 < length (layers (lin_nnet 2 3)) - 1"
    by (simp add: ex2_layers)
  with hid obtain g wd dn di where
    g: "act_grad (activationfn (layers (lin_nnet 2 3) ! 1)) (ex2_z ! 1) = Inr g"
    and dn: "d ! (1 + 1) = Some dn"
    and wd: "matmul (transpose_m (slice_cols 1 (ex2_W ! 1))) dn = Inr wd"
    and ent: "\<forall>r<ncols (ex2_W ! 1) - 1. \<forall>j<ncols dn.
                   entry wd r j
                     = sum_list (map (\<lambda>k. entry (ex2_W ! 1) k (r + 1) * entry dn k j)
                                     [0 ..< nrows (ex2_W ! 1)])"
    and p: "is_elementwise_product g wd di"
    and di: "d ! 1 = Some di"
    by blast
  from dn d2' have dn': "dn = mat [[24, 68]]"
    by (simp add: eq)
  from di d1 have di': "di = mat [[48, 136], [96, 272]]"
    by (simp add: eq)
  have "(1::nat) < ncols (ex2_W ! 1) - 1" "(1::nat) < ncols (mat [[24, 68]])"
    by (simp_all add: ex2_W_def mat_def)
  with ent [unfolded dn', rule_format, of 1 1]
  have e: "entry wd 1 1
               = sum_list (map (\<lambda>k. entry (ex2_W ! 1) k (1 + 1) * entry (mat [[24, 68]]) k 1)
                               [0 ..< nrows (ex2_W ! 1)])"
    by blast
  have h: "\<exists>g wd. act_grad (activationfn (layers (lin_nnet 2 3) ! 1)) (ex2_z ! 1) = Inr g
          \<and> matmul (transpose_m (slice_cols 1 (ex2_W ! 1))) (mat [[24, 68]]) = Inr wd
          \<and> entry wd 1 1
               = sum_list (map (\<lambda>k. entry (ex2_W ! 1) k (1 + 1) * entry (mat [[24, 68]]) k 1)
                               [0 ..< nrows (ex2_W ! 1)])
          \<and> is_elementwise_product g wd (mat [[48, 136], [96, 272]])"
    using g wd e p unfolding dn' di' by blast
  have "length ex2_d = length (layers (lin_nnet 2 3))" "ex2_d ! 0 = None"
    using len unfolding eq by simp_all
  with ex2_run ex2_deltas s h show ?thesis
    by blast
qed




end
